theory Spec2Isabelle
  imports Complex_Main "HOL-Library.Log_Nat"
begin

section \<open>JavaScript numbers\<close>

text \<open>
  The library computes with JavaScript numbers. A finite value is a real, and the
  three non-finite values are kept, so that a division by zero is \<open>Infinity\<close> or
  \<open>NaN\<close> as in the program and not the \<open>0\<close> of HOL. The operations of this section
  are exact; the frame clock, whose results decide what the controller does, uses
  the rounded operations of the next section. A zero is the positive zero, and the
  one place where the program can divide by a negative zero is treated there.
  Counts of stars are integers (\<open>Math.round\<close> yields them, and the options that
  set a count are documented as numbers of stars).
\<close>

datatype 'a jsval = Val 'a | PInf | NInf | NaN

type_synonym jsnum = "real jsval"
type_synonym jsint = "int jsval"

fun js_add :: "jsnum \<Rightarrow> jsnum \<Rightarrow> jsnum" where
  "js_add (Val a) (Val b) = Val (a + b)"
| "js_add NaN _ = NaN"
| "js_add _ NaN = NaN"
| "js_add PInf NInf = NaN"
| "js_add NInf PInf = NaN"
| "js_add PInf _ = PInf"
| "js_add _ PInf = PInf"
| "js_add NInf _ = NInf"
| "js_add _ NInf = NInf"

fun js_neg :: "jsnum \<Rightarrow> jsnum" where
  "js_neg (Val a) = Val (- a)"
| "js_neg PInf = NInf"
| "js_neg NInf = PInf"
| "js_neg NaN = NaN"

definition js_sub :: "jsnum \<Rightarrow> jsnum \<Rightarrow> jsnum" where
  "js_sub a b = js_add a (js_neg b)"

text \<open>The sign of an infinite product or quotient; a zero factor gives \<open>NaN\<close>.\<close>

definition signed_inf :: "real \<Rightarrow> jsnum" where
  "signed_inf a = (if 0 < a then PInf else if a < 0 then NInf else NaN)"

fun js_mul :: "jsnum \<Rightarrow> jsnum \<Rightarrow> jsnum" where
  "js_mul (Val a) (Val b) = Val (a * b)"
| "js_mul NaN _ = NaN"
| "js_mul _ NaN = NaN"
| "js_mul (Val a) PInf = signed_inf a"
| "js_mul (Val a) NInf = signed_inf (- a)"
| "js_mul PInf (Val b) = signed_inf b"
| "js_mul NInf (Val b) = signed_inf (- b)"
| "js_mul PInf PInf = PInf"
| "js_mul NInf NInf = PInf"
| "js_mul PInf NInf = NInf"
| "js_mul NInf PInf = NInf"

fun js_div :: "jsnum \<Rightarrow> jsnum \<Rightarrow> jsnum" where
  "js_div (Val a) (Val b) = (if b = 0 then signed_inf a else Val (a / b))"
| "js_div NaN _ = NaN"
| "js_div _ NaN = NaN"
| "js_div (Val a) PInf = Val 0"
| "js_div (Val a) NInf = Val 0"
| "js_div PInf (Val b) = (if 0 \<le> b then PInf else NInf)"
| "js_div NInf (Val b) = (if 0 \<le> b then NInf else PInf)"
| "js_div PInf PInf = NaN"
| "js_div PInf NInf = NaN"
| "js_div NInf PInf = NaN"
| "js_div NInf NInf = NaN"

fun js_abs :: "jsnum \<Rightarrow> jsnum" where
  "js_abs (Val a) = Val \<bar>a\<bar>"
| "js_abs PInf = PInf"
| "js_abs NInf = PInf"
| "js_abs NaN = NaN"

text \<open>\<open>Math.round\<close>: the nearest integer, a tie going up; non-finite values stay.\<close>

fun js_round :: "jsnum \<Rightarrow> jsint" where
  "js_round (Val a) = Val (round a)"
| "js_round PInf = PInf"
| "js_round NInf = NInf"
| "js_round NaN = NaN"

fun js_real :: "jsint \<Rightarrow> jsnum" where
  "js_real (Val n) = Val (real_of_int n)"
| "js_real PInf = PInf"
| "js_real NInf = NInf"
| "js_real NaN = NaN"

text \<open>\<open>Math.min\<close> and \<open>Math.max\<close>: \<open>NaN\<close> if an argument is \<open>NaN\<close>.\<close>

fun js_min :: "('a::linorder) jsval \<Rightarrow> 'a jsval \<Rightarrow> 'a jsval" where
  "js_min (Val a) (Val b) = Val (min a b)"
| "js_min NaN _ = NaN"
| "js_min _ NaN = NaN"
| "js_min NInf _ = NInf"
| "js_min _ NInf = NInf"
| "js_min PInf b = b"
| "js_min a PInf = a"

fun js_max :: "('a::linorder) jsval \<Rightarrow> 'a jsval \<Rightarrow> 'a jsval" where
  "js_max (Val a) (Val b) = Val (max a b)"
| "js_max NaN _ = NaN"
| "js_max _ NaN = NaN"
| "js_max PInf _ = PInf"
| "js_max _ PInf = PInf"
| "js_max NInf b = b"
| "js_max a NInf = a"

text \<open>Comparisons: every comparison with \<open>NaN\<close> is false.\<close>

fun js_lt :: "('a::linorder) jsval \<Rightarrow> 'a jsval \<Rightarrow> bool" where
  "js_lt (Val a) (Val b) = (a < b)"
| "js_lt NaN _ = False"
| "js_lt _ NaN = False"
| "js_lt _ NInf = False"
| "js_lt PInf _ = False"
| "js_lt NInf _ = True"
| "js_lt _ PInf = True"

fun js_le :: "('a::linorder) jsval \<Rightarrow> 'a jsval \<Rightarrow> bool" where
  "js_le (Val a) (Val b) = (a \<le> b)"
| "js_le NaN _ = False"
| "js_le _ NaN = False"
| "js_le NInf _ = True"
| "js_le _ PInf = True"
| "js_le _ NInf = False"
| "js_le PInf _ = False"

definition js_gt :: "('a::linorder) jsval \<Rightarrow> 'a jsval \<Rightarrow> bool" where
  "js_gt a b = js_lt b a"

definition js_ge :: "('a::linorder) jsval \<Rightarrow> 'a jsval \<Rightarrow> bool" where
  "js_ge a b = js_le b a"


section \<open>Double precision\<close>

text \<open>
  A JavaScript number is an IEEE 754 double, and every arithmetic operation rounds
  its exact result to the nearest double, a tie going to the even significand.
  \<open>exponent x\<close> is the binary exponent of \<open>x\<close>, the integer \<open>e\<close> with
  \<open>2^e \<le> |x| < 2^(e+1)\<close>. The doubles next to \<open>x\<close> are the multiples of
  \<open>2^(e-52)\<close>, or of \<open>2^(-1074)\<close> below the normal range; a result that rounds to
  \<open>2^1024\<close> or beyond is an infinity.
\<close>

definition exponent :: "real \<Rightarrow> int" where
  "exponent x =
     (if 1 \<le> \<bar>x\<bar> then bitlen \<lfloor>\<bar>x\<bar>\<rfloor> - 1 else - bitlen (\<lceil>1 / \<bar>x\<bar>\<rceil> - 1))"

definition round_even :: "real \<Rightarrow> int" where
  "round_even x =
     (let n = \<lfloor>x\<rfloor>; r = x - of_int n
      in if r < 1 / 2 then n else if 1 / 2 < r then n + 1 else if even n then n else n + 1)"

definition double :: "real \<Rightarrow> jsnum" where
  "double x =
     (let ulp = 2 powi (max (exponent x) (- 1022) - 52);
          r = of_int (round_even (x / ulp)) * ulp
      in if 2 powi 1024 \<le> \<bar>r\<bar> then (if 0 < x then PInf else NInf) else Val r)"

fun rounded :: "jsnum \<Rightarrow> jsnum" where
  "rounded (Val a) = double a"
| "rounded PInf = PInf"
| "rounded NInf = NInf"
| "rounded NaN = NaN"

text \<open>The operators \<open>+\<close>, \<open>-\<close> and \<open>/\<close> of the program, on doubles.\<close>

definition dbl_add :: "jsnum \<Rightarrow> jsnum \<Rightarrow> jsnum" where
  "dbl_add a b = rounded (js_add a b)"

definition dbl_sub :: "jsnum \<Rightarrow> jsnum \<Rightarrow> jsnum" where
  "dbl_sub a b = rounded (js_sub a b)"

definition dbl_div :: "jsnum \<Rightarrow> jsnum \<Rightarrow> jsnum" where
  "dbl_div a b = rounded (js_div a b)"

text \<open>
  Whether the quotient of two numbers, neither of them a negative zero, is the
  negative zero: it is a zero, and the signs of the two differ.
\<close>

definition negative_zero_quotient :: "jsnum \<Rightarrow> jsnum \<Rightarrow> bool" where
  "negative_zero_quotient a b = (dbl_div a b = Val 0 \<and> (js_lt a (Val 0) \<noteq> js_lt b (Val 0)))"


section \<open>Data model\<close>

text \<open>A star, as \<open>_createStar\<close> builds it (fields \<open>x\<close>, \<open>y\<close>, \<open>z\<close>, \<open>baseSize\<close>, \<open>hue\<close>).\<close>

record star =
  star_x :: real
  star_y :: real
  star_z :: real
  baseSize :: real
  star_hue :: real

text \<open>
  The configuration object (\<open>Starfield.defaults\<close> merged with the options).
  \<open>starCount\<close> is a number or \<open>'auto'\<close>; \<open>starColors.hue\<close> is a number or a
  two-element array; \<open>background\<close> is \<open>false\<close> or a radial gradient with its
  colour stops, taken as a whole.
\<close>

datatype star_setting = Auto | Count int

datatype hue_setting = Hue real | HueRange real real

datatype background = NoBackground | RadialGradient "(real \<times> string) list"

record star_colors =
  hue :: hue_setting
  saturation :: real
  lightness :: real

record star_size =
  size_min :: real
  size_max :: real

record device_detection =
  mobile :: int
  desktop :: int

record config =
  cfg_starCount :: star_setting
  maxStarCount :: int
  speed :: real
  focalLength :: real
  starColors :: star_colors
  starSize :: star_size
  background :: background
  trailEffect :: real
  autoStart :: bool
  debug :: bool
  deviceDetection :: device_detection

definition defaults :: config where
  "defaults = \<lparr>
     cfg_starCount = Auto,
     maxStarCount = 10000,
     speed = 0.6,
     focalLength = 300,
     starColors = \<lparr>hue = HueRange 180 260, saturation = 70, lightness = 90\<rparr>,
     starSize = \<lparr>size_min = 0.5, size_max = 2.0\<rparr>,
     background = RadialGradient [(0, ''#000000''), (1, ''#341b6f'')],
     trailEffect = 0.3,
     autoStart = True,
     debug = False,
     deviceDetection = \<lparr>mobile = 200, desktop = 500\<rparr>\<rparr>"

text \<open>
  A partial configuration, the argument of the constructor and of \<open>updateConfig\<close>:
  every option may be absent (\<open>undefined\<close>), also inside the nested objects.
\<close>

record new_star_colors =
  new_hue :: "hue_setting option"
  new_saturation :: "real option"
  new_lightness :: "real option"

record new_star_size =
  new_size_min :: "real option"
  new_size_max :: "real option"

record new_device_detection =
  new_mobile :: "int option"
  new_desktop :: "int option"

record new_config =
  new_starCount :: "star_setting option"
  new_maxStarCount :: "int option"
  new_speed :: "real option"
  new_focalLength :: "real option"
  new_starColors :: "new_star_colors option"
  new_starSize :: "new_star_size option"
  new_background :: "background option"
  new_trailEffect :: "real option"
  new_autoStart :: "bool option"
  new_debug :: "bool option"
  new_deviceDetection :: "new_device_detection option"

definition no_options :: new_config where
  "no_options = \<lparr>
     new_starCount = None, new_maxStarCount = None, new_speed = None,
     new_focalLength = None, new_starColors = None, new_starSize = None,
     new_background = None, new_trailEffect = None, new_autoStart = None,
     new_debug = None, new_deviceDetection = None\<rparr>"

text \<open>\<open>this.performanceStats\<close>. The two times are \<open>null\<close> until first set.\<close>

record perf_stats =
  frameTimestamps :: "real list"
  calibrationStartTime :: "real option"
  initialCalibrationComplete :: bool
  targetFPS :: real
  currentFPS :: jsint
  initialCalibrationDuration :: real
  initialCalibrationAttempts :: nat
  maxInitialCalibrationAttempts :: nat
  lastOptimizationTime :: "real option"
  optimizationInterval :: real
  continuousOptimizationDuration :: real

definition initial_stats :: perf_stats where
  "initial_stats = \<lparr>
     frameTimestamps = [],
     calibrationStartTime = None,
     initialCalibrationComplete = False,
     targetFPS = 60,
     currentFPS = Val 0,
     initialCalibrationDuration = 1000,
     initialCalibrationAttempts = 0,
     maxInitialCalibrationAttempts = 8,
     lastOptimizationTime = None,
     optimizationInterval = 10000,
     continuousOptimizationDuration = 3000\<rparr>"

text \<open>
  The browser, as far as the library uses it: the readings of \<open>performance.now()\<close>
  and the draws of \<open>Math.random()\<close> (the k-th call returns the k-th element),
  \<open>localStorage\<close> (every access throws when it is unavailable), the two facts read
  from \<open>navigator\<close>, the window size, and the frames requested with
  \<open>requestAnimationFrame\<close> and not cancelled (the model does not say when the
  browser runs them).
\<close>

datatype storage = Unavailable | Items "string \<rightharpoonup> string"

record browser =
  now_readings :: "nat \<Rightarrow> real"
  now_count :: nat
  random_draws :: "nat \<Rightarrow> real"
  random_count :: nat
  localStorage :: storage
  userAgentMobile :: bool
  hardwareConcurrency :: "nat option"
  innerWidth :: real
  innerHeight :: real
  next_frame :: nat
  requested_frames :: "nat list"

text \<open>A disc drawn by \<open>_render\<close>: \<open>arc\<close> at a point with a radius, filled with an \<open>hsla\<close> colour.\<close>

record disc =
  disc_x :: jsnum
  disc_y :: jsnum
  radius :: jsnum
  fill_hue :: real
  fill_saturation :: real
  fill_lightness :: real
  alpha :: jsnum

text \<open>
  An instance. \<open>backgroundGradient\<close> tells whether a gradient object is cached;
  \<open>canvas\<close> holds the discs of the last frame drawn (the pixels of the gradient and
  of the trail are not modelled).
\<close>

record starfield =
  config :: config
  stars :: "star list"
  starCount :: int
  animationId :: "nat option"
  isRunning :: bool
  backgroundGradient :: bool
  performanceStats :: perf_stats
  centerX :: real
  centerY :: real
  canvas :: "disc list"
  browser :: browser

text \<open>
  What a call does: it returns, or it throws the error of \<open>_validateConfig\<close>, each
  with the state it leaves behind; \<open>OutOfFuel\<close> is a nesting of restarts deeper
  than the bound given to the model.
\<close>

datatype error = Invalid string

datatype 'a outcome = Done 'a | Threw error 'a | OutOfFuel


section \<open>The browser\<close>

definition performance_now :: "browser \<Rightarrow> real \<times> browser" where
  "performance_now b = (now_readings b (now_count b), b\<lparr>now_count := Suc (now_count b)\<rparr>)"

definition math_random :: "browser \<Rightarrow> real \<times> browser" where
  "math_random b = (random_draws b (random_count b), b\<lparr>random_count := Suc (random_count b)\<rparr>)"

definition requestAnimationFrame :: "browser \<Rightarrow> nat \<times> browser" where
  "requestAnimationFrame b =
     (next_frame b,
      b\<lparr>next_frame := Suc (next_frame b),
        requested_frames := requested_frames b @ [next_frame b]\<rparr>)"

definition cancelAnimationFrame :: "nat \<Rightarrow> browser \<Rightarrow> browser" where
  "cancelAnimationFrame i b = b\<lparr>requested_frames := removeAll i (requested_frames b)\<rparr>"

definition storage_key :: string where
  "storage_key = ''starfield-optimized-count''"

text \<open>\<open>try { localStorage.setItem(key, value) } catch (e) { }\<close>\<close>

definition setItem :: "string \<Rightarrow> string \<Rightarrow> browser \<Rightarrow> browser" where
  "setItem key v b =
     (case localStorage b of
        Unavailable \<Rightarrow> b
      | Items m \<Rightarrow> b\<lparr>localStorage := Items (m(key \<mapsto> v))\<rparr>)"

subsection \<open>Numbers as strings\<close>

definition digit_char :: "nat \<Rightarrow> char" where
  "digit_char d = char_of (48 + d)"

fun nat_toString :: "nat \<Rightarrow> string" where
  "nat_toString n =
     (if n < 10 then [digit_char n] else nat_toString (n div 10) @ [digit_char (n mod 10)])"

declare nat_toString.simps [simp del]

definition toString :: "int \<Rightarrow> string" where
  "toString n = (if n < 0 then CHR ''-'' # nat_toString (nat (- n)) else nat_toString (nat n))"

fun js_toString :: "jsint \<Rightarrow> string" where
  "js_toString (Val n) = toString n"
| "js_toString PInf = ''Infinity''"
| "js_toString NInf = ''-Infinity''"
| "js_toString NaN = ''NaN''"

text \<open>
  \<open>parseInt(s, 10)\<close>: leading white space is skipped, then an optional sign, then
  the longest run of decimal digits; the result is \<open>NaN\<close> (here \<open>None\<close>) when there
  is no digit. A string is a list of 8-bit characters; the white space and the line
  terminators of JavaScript among them are the tab, the line feed, the vertical
  tab, the form feed, the carriage return, the space and the no-break space.
\<close>

definition is_white :: "char \<Rightarrow> bool" where
  "is_white c =
     (c \<in> {CHR 0x09, CHR 0x0A, CHR 0x0B, CHR 0x0C, CHR 0x0D, CHR '' '', CHR 0xA0})"

definition is_digit :: "char \<Rightarrow> bool" where
  "is_digit c = (48 \<le> (of_char c :: nat) \<and> (of_char c :: nat) \<le> 57)"

definition digits_value :: "string \<Rightarrow> int" where
  "digits_value ds = foldl (\<lambda>a c. a * 10 + (int (of_char c) - 48)) 0 ds"

definition parseInt :: "string \<Rightarrow> int option" where
  "parseInt s =
     (let t = dropWhile is_white s;
          negative = (t \<noteq> [] \<and> hd t = CHR ''-'');
          u = (if t \<noteq> [] \<and> (hd t = CHR ''-'' \<or> hd t = CHR ''+'') then tl t else t);
          ds = takeWhile is_digit u
      in if ds = [] then None
         else Some (if negative then - digits_value ds else digits_value ds))"

section \<open>Stars\<close>

text \<open>The hue range \<open>[minHue, maxHue]\<close>: a single hue is the range from it to itself.\<close>

fun hue_range :: "hue_setting \<Rightarrow> real \<times> real" where
  "hue_range (HueRange a b) = (a, b)"
| "hue_range (Hue h) = (h, h)"

text \<open>The object literal of \<open>_createStar\<close>, for the five random numbers it draws in order.\<close>

definition sampleStar :: "config \<Rightarrow> real \<Rightarrow> real \<Rightarrow> real \<Rightarrow> real \<Rightarrow> real \<Rightarrow> star" where
  "sampleStar cfg r1 r2 r3 r4 r5 =
     (let minHue = fst (hue_range (hue (starColors cfg)));
          maxHue = snd (hue_range (hue (starColors cfg)))
      in \<lparr>star_x = (r1 - 0.5) * 2000,
          star_y = (r2 - 0.5) * 2000,
          star_z = r3 * 2000,
          baseSize = size_min (starSize cfg) + r4 * (size_max (starSize cfg) - size_min (starSize cfg)),
          star_hue = minHue + r5 * (maxHue - minHue)\<rparr>)"

definition createStar :: "config \<Rightarrow> browser \<Rightarrow> star \<times> browser" where
  "createStar cfg b =
     (let n = random_count b; r = random_draws b
      in (sampleStar cfg (r n) (r (n + 1)) (r (n + 2)) (r (n + 3)) (r (n + 4)),
          b\<lparr>random_count := n + 5\<rparr>))"

text \<open>\<open>for (i = 0; i < n; i++) this.stars.push(this._createStar())\<close>\<close>

fun pushStars :: "nat \<Rightarrow> config \<Rightarrow> star list \<Rightarrow> browser \<Rightarrow> star list \<times> browser" where
  "pushStars 0 cfg ss b = (ss, b)"
| "pushStars (Suc n) cfg ss b =
     (case createStar cfg b of (st, b') \<Rightarrow> pushStars n cfg (ss @ [st]) b')"

text \<open>
  \<open>_update\<close>: every star moves towards the viewer by \<open>speed\<close>; one that reaches
  \<open>z \<le> -200\<close> takes all five fields of a new star.
\<close>

fun updateStars :: "config \<Rightarrow> star list \<Rightarrow> browser \<Rightarrow> star list \<times> browser" where
  "updateStars cfg [] b = ([], b)"
| "updateStars cfg (st # rest) b =
     (if star_z st - speed cfg \<le> - 200
      then (case createStar cfg b of (newStar, b') \<Rightarrow>
              (case updateStars cfg rest b' of (rest', b'') \<Rightarrow> (newStar # rest', b'')))
      else (case updateStars cfg rest b of (rest', b') \<Rightarrow>
              (st\<lparr>star_z := star_z st - speed cfg\<rparr> # rest', b')))"

definition update :: "starfield \<Rightarrow> starfield" where
  "update s =
     (case updateStars (config s) (stars s) (browser s) of
        (ss, b) \<Rightarrow> s\<lparr>stars := ss, browser := b\<rparr>)"

section \<open>Projection and rendering\<close>

record projected =
  proj_x :: jsnum
  proj_y :: jsnum
  proj_scale :: jsnum

definition project :: "starfield \<Rightarrow> real \<Rightarrow> real \<Rightarrow> real \<Rightarrow> projected" where
  "project s x y z =
     (let scale = js_div (Val (focalLength (config s))) (Val (focalLength (config s) + z))
      in \<lparr>proj_x = js_add (Val (centerX s)) (js_mul (Val x) scale),
          proj_y = js_add (Val (centerY s)) (js_mul (Val y) scale),
          proj_scale = scale\<rparr>)"

text \<open>The body of the \<open>forEach\<close> of \<open>_render\<close>: \<open>None\<close> is the early \<open>return\<close>.\<close>

definition drawStar :: "starfield \<Rightarrow> star \<Rightarrow> disc option" where
  "drawStar s st =
     (let p = project s (star_x st) (star_y st) (star_z st)
      in if js_le (proj_scale p) (Val 0) then None
         else Some \<lparr>disc_x = proj_x p,
                    disc_y = proj_y p,
                    radius = js_mul (Val (baseSize st)) (proj_scale p),
                    fill_hue = star_hue st,
                    fill_saturation = saturation (starColors (config s)),
                    fill_lightness = lightness (starColors (config s)),
                    alpha = js_min (Val 1) (js_mul (proj_scale p) (Val 0.7))\<rparr>)"

fun drawStars :: "starfield \<Rightarrow> star list \<Rightarrow> disc list" where
  "drawStars s [] = []"
| "drawStars s (st # rest) =
     (case drawStar s st of
        None \<Rightarrow> drawStars s rest
      | Some d \<Rightarrow> d # drawStars s rest)"

text \<open>
  \<open>_render\<close>: \<open>_drawBackgroundGradient\<close> caches the gradient unless the background
  is disabled; then every star is drawn. The background is one of the two values
  of its type, for which \<open>_drawBackgroundGradient\<close> returns.
\<close>

definition render :: "starfield \<Rightarrow> starfield" where
  "render s =
     (let s1 = (if background (config s) = NoBackground then s
                else s\<lparr>backgroundGradient := True\<rparr>)
      in s1\<lparr>canvas := drawStars s1 (stars s1)\<rparr>)"


section \<open>Configuration\<close>

text \<open>
  \<open>_validateConfig\<close>: the first option out of its range throws. The checks run in
  the order of the source; the string names the option. The tests of the source for
  values that are not numbers, not finite, or arrays of another length than two have
  no counterpart: the types of the options exclude such values.
\<close>

definition validate :: "real \<Rightarrow> real \<Rightarrow> real \<Rightarrow> string \<Rightarrow> error option" where
  "validate v lo hi name = (if v < lo \<or> v > hi then Some (Invalid name) else None)"

definition validate_opt :: "real option \<Rightarrow> real \<Rightarrow> real \<Rightarrow> string \<Rightarrow> error option" where
  "validate_opt v lo hi name = (case v of None \<Rightarrow> None | Some a \<Rightarrow> validate a lo hi name)"

fun first_error :: "error option list \<Rightarrow> error option" where
  "first_error [] = None"
| "first_error (Some e # _) = Some e"
| "first_error (None # checks) = first_error checks"

definition validateStarSize :: "new_star_size \<Rightarrow> error option" where
  "validateStarSize sz =
     first_error
       [validate_opt (new_size_min sz) 0.1 10 ''starSize.min'',
        validate_opt (new_size_max sz) 0.1 10 ''starSize.max'',
        (case (new_size_min sz, new_size_max sz) of
           (Some a, Some b) \<Rightarrow> if a > b then Some (Invalid ''starSize'') else None
         | _ \<Rightarrow> None)]"

definition validateStarColors :: "new_star_colors \<Rightarrow> error option" where
  "validateStarColors c =
     first_error
       [validate_opt (new_saturation c) 0 100 ''starColors.saturation'',
        validate_opt (new_lightness c) 0 100 ''starColors.lightness'',
        (case new_hue c of
           None \<Rightarrow> None
         | Some (HueRange a b) \<Rightarrow>
             first_error [validate a 0 360 ''starColors.hue[0]'', validate b 0 360 ''starColors.hue[1]'']
         | Some (Hue h) \<Rightarrow> validate h 0 360 ''starColors.hue'')]"

definition validateDeviceDetection :: "new_device_detection \<Rightarrow> error option" where
  "validateDeviceDetection d =
     first_error
       [validate_opt (map_option real_of_int (new_mobile d)) 1 10000 ''deviceDetection.mobile'',
        validate_opt (map_option real_of_int (new_desktop d)) 1 10000 ''deviceDetection.desktop'']"

definition validateConfig :: "new_config \<Rightarrow> error option" where
  "validateConfig c =
     first_error
       [validate_opt (new_speed c) 0.01 10 ''speed'',
        validate_opt (new_focalLength c) 50 1000 ''focalLength'',
        validate_opt (new_trailEffect c) 0 1 ''trailEffect'',
        (case new_starCount c of
           Some (Count n) \<Rightarrow> validate (real_of_int n) 1 10000 ''starCount''
         | _ \<Rightarrow> None),
        validate_opt (map_option real_of_int (new_maxStarCount c)) 100 50000 ''maxStarCount'',
        (case new_starSize c of None \<Rightarrow> None | Some sz \<Rightarrow> validateStarSize sz),
        (case new_starColors c of None \<Rightarrow> None | Some col \<Rightarrow> validateStarColors col),
        (case new_deviceDetection c of None \<Rightarrow> None | Some d \<Rightarrow> validateDeviceDetection d)]"

text \<open>
  \<open>_mergeDeep\<close>: an option that is present overrides, nested objects are merged.
  An option is absent or has a value of its type, and the background is given as a
  whole, \<open>false\<close> or a gradient with its colour stops. Two behaviours of the source
  have no counterpart in these types: a key written with the value \<open>undefined\<close> is
  copied over the default, and a gradient given to an instance whose background is
  \<open>false\<close> is merged into an empty object, which \<open>_drawBackgroundGradient\<close> cannot
  draw; here the gradient replaces \<open>false\<close>.
\<close>

definition override :: "'a \<Rightarrow> 'a option \<Rightarrow> 'a" where
  "override old new = (case new of None \<Rightarrow> old | Some v \<Rightarrow> v)"

definition mergeDeep :: "config \<Rightarrow> new_config \<Rightarrow> config" where
  "mergeDeep target source =
     \<lparr>cfg_starCount = override (cfg_starCount target) (new_starCount source),
      maxStarCount = override (maxStarCount target) (new_maxStarCount source),
      speed = override (speed target) (new_speed source),
      focalLength = override (focalLength target) (new_focalLength source),
      starColors =
        (case new_starColors source of
           None \<Rightarrow> starColors target
         | Some c \<Rightarrow>
             \<lparr>hue = override (hue (starColors target)) (new_hue c),
              saturation = override (saturation (starColors target)) (new_saturation c),
              lightness = override (lightness (starColors target)) (new_lightness c)\<rparr>),
      starSize =
        (case new_starSize source of
           None \<Rightarrow> starSize target
         | Some z \<Rightarrow>
             \<lparr>size_min = override (size_min (starSize target)) (new_size_min z),
              size_max = override (size_max (starSize target)) (new_size_max z)\<rparr>),
      background = override (background target) (new_background source),
      trailEffect = override (trailEffect target) (new_trailEffect source),
      autoStart = override (autoStart target) (new_autoStart source),
      debug = override (debug target) (new_debug source),
      deviceDetection =
        (case new_deviceDetection source of
           None \<Rightarrow> deviceDetection target
         | Some d \<Rightarrow>
             \<lparr>mobile = override (mobile (deviceDetection target)) (new_mobile d),
              desktop = override (desktop (deviceDetection target)) (new_desktop d)\<rparr>)\<rparr>"

text \<open>A complete configuration seen as the argument of \<open>_validateConfig\<close>.\<close>

definition all_options :: "config \<Rightarrow> new_config" where
  "all_options c =
     \<lparr>new_starCount = Some (cfg_starCount c),
      new_maxStarCount = Some (maxStarCount c),
      new_speed = Some (speed c),
      new_focalLength = Some (focalLength c),
      new_starColors =
        Some \<lparr>new_hue = Some (hue (starColors c)),
              new_saturation = Some (saturation (starColors c)),
              new_lightness = Some (lightness (starColors c))\<rparr>,
      new_starSize =
        Some \<lparr>new_size_min = Some (size_min (starSize c)),
              new_size_max = Some (size_max (starSize c))\<rparr>,
      new_background = Some (background c),
      new_trailEffect = Some (trailEffect c),
      new_autoStart = Some (autoStart c),
      new_debug = Some (debug c),
      new_deviceDetection =
        Some \<lparr>new_mobile = Some (mobile (deviceDetection c)),
              new_desktop = Some (desktop (deviceDetection c))\<rparr>\<rparr>"

section \<open>The star count at start\<close>

text \<open>
  The first half of \<open>_detectDeviceCapability\<close>: the count cached by an earlier
  session, when \<open>localStorage\<close> can be read, the item is a non-empty string,
  \<open>parseInt\<close> gives a number and that number is in \<open>[100, maxStarCount]\<close>.
\<close>

definition cachedCount :: "config \<Rightarrow> browser \<Rightarrow> int option" where
  "cachedCount cfg b =
     (case localStorage b of
        Unavailable \<Rightarrow> None
      | Items m \<Rightarrow>
          (case m storage_key of
             None \<Rightarrow> None
           | Some cached \<Rightarrow>
               if cached = [] then None
               else (case parseInt cached of
                       None \<Rightarrow> None
                     | Some count \<Rightarrow>
                         if count \<ge> 100 \<and> count \<le> maxStarCount cfg then Some count else None)))"

definition lowEnd :: "browser \<Rightarrow> bool" where
  "lowEnd b = (case hardwareConcurrency b of None \<Rightarrow> False | Some n \<Rightarrow> n \<noteq> 0 \<and> n \<le> 4)"

definition detectDeviceCapability :: "config \<Rightarrow> browser \<Rightarrow> int" where
  "detectDeviceCapability cfg b =
     (case cachedCount cfg b of
        Some count \<Rightarrow> count
      | None \<Rightarrow>
          if userAgentMobile b \<or> lowEnd b
          then mobile (deviceDetection cfg)
          else desktop (deviceDetection cfg))"

section \<open>The frame clock\<close>

text \<open>
  The timestamps are readings of \<open>performance.now()\<close>, finite numbers. The loop
  \<open>for (i = 1; i < timestamps.length; i++) totalInterval += timestamps[i] - timestamps[i - 1]\<close>
  rounds every difference and every sum.
\<close>

fun sumIntervals :: "jsnum \<Rightarrow> real list \<Rightarrow> jsnum" where
  "sumIntervals totalInterval (a # b # ts) =
     sumIntervals (dbl_add totalInterval (dbl_sub (Val b) (Val a))) (b # ts)"
| "sumIntervals totalInterval [a] = totalInterval"
| "sumIntervals totalInterval [] = totalInterval"

definition avgInterval :: "real list \<Rightarrow> jsnum" where
  "avgInterval timestamps =
     dbl_div (sumIntervals (Val 0) timestamps) (Val (real (length timestamps) - 1))"

text \<open>
  \<open>1000 / avgInterval\<close>. The total is never a negative zero, but the average of a
  negative total can underflow to one, and then the quotient is \<open>-Infinity\<close>.
\<close>

definition measuredFPS :: "real list \<Rightarrow> jsnum" where
  "measuredFPS timestamps =
     (if negative_zero_quotient (sumIntervals (Val 0) timestamps)
           (Val (real (length timestamps) - 1))
      then NInf
      else dbl_div (Val 1000) (avgInterval timestamps))"

text \<open>
  The part of \<open>_animate\<close> that records a frame: the timestamp is pushed, the oldest
  one is dropped beyond 120, and \<open>currentFPS\<close> is recomputed once there are 10.
\<close>

definition recordFrame :: "real \<Rightarrow> perf_stats \<Rightarrow> perf_stats" where
  "recordFrame now st =
     (let pushed = frameTimestamps st @ [now];
          timestamps = (if length pushed > 120 then tl pushed else pushed);
          st1 = st\<lparr>frameTimestamps := timestamps\<rparr>
      in if length timestamps \<ge> 10
         then st1\<lparr>currentFPS := js_round (measuredFPS timestamps)\<rparr>
         else st1)"


section \<open>The performance controller: the counts it computes\<close>

text \<open>
  A time of \<open>performanceStats\<close> is \<open>null\<close> or a number: as a condition it holds when
  it is a number other than 0, in a subtraction \<open>null\<close> counts as 0.
\<close>

definition time_set :: "real option \<Rightarrow> bool" where
  "time_set t = (case t of None \<Rightarrow> False | Some v \<Rightarrow> v \<noteq> 0)"

definition time_value :: "real option \<Rightarrow> real" where
  "time_value t = (case t of None \<Rightarrow> 0 | Some v \<Rightarrow> v)"

text \<open>\<open>0.75 + (Math.min(fpsRatio, 4) / 20)\<close>\<close>

definition aggressiveness :: "jsnum \<Rightarrow> jsnum" where
  "aggressiveness fpsRatio = js_add (Val 0.75) (js_div (js_min fpsRatio (Val 4)) (Val 20))"

text \<open>\<open>Math.max(100, Math.min(maxStars, newStarCount))\<close>\<close>

definition clampCount :: "int \<Rightarrow> jsint \<Rightarrow> jsint" where
  "clampCount maxStars newStarCount = js_max (Val 100) (js_min (Val maxStars) newStarCount)"

text \<open>Initial calibration: \<open>clampedCount\<close> for the current count and the measured ratio.\<close>

definition calibrationCount :: "int \<Rightarrow> int \<Rightarrow> jsnum \<Rightarrow> jsint" where
  "calibrationCount count maxStars fpsRatio =
     (let newStarCount =
            js_round (js_mul (Val (real_of_int count)) (js_mul fpsRatio (aggressiveness fpsRatio)))
      in clampCount maxStars newStarCount)"

text \<open>Continuous optimization: \<open>clampedCount\<close>, after the limit of the step.\<close>

definition optimizationCount :: "int \<Rightarrow> int \<Rightarrow> jsnum \<Rightarrow> jsint" where
  "optimizationCount count maxStars fpsRatio =
     (let conservativeMultiplier = 0.9;
          newStarCount =
            js_round (js_mul (Val (real_of_int count)) (js_mul fpsRatio (Val conservativeMultiplier)));
          maxChange = round (real_of_int count * 0.2);
          minStars = count - maxChange;
          maxStarsThisStep = count + maxChange;
          newStarCount' = js_max (Val minStars) (js_min (Val maxStarsThisStep) newStarCount)
      in clampCount maxStars newStarCount')"

text \<open>\<open>Math.abs((clampedCount - this.starCount) / this.starCount)\<close>\<close>

definition changePercent :: "int \<Rightarrow> jsint \<Rightarrow> jsnum" where
  "changePercent count clampedCount =
     js_abs (js_div (js_sub (js_real clampedCount) (Val (real_of_int count))) (Val (real_of_int count)))"

section \<open>Start, stop and update\<close>

definition stop :: "starfield \<Rightarrow> starfield" where
  "stop s =
     (let s1 = s\<lparr>isRunning := False\<rparr>
      in case animationId s1 of
           None \<Rightarrow> s1
         | Some i \<Rightarrow>
             if i = 0 then s1
             else s1\<lparr>browser := cancelAnimationFrame i (browser s1), animationId := None\<rparr>)"

text \<open>
  \<open>start\<close> runs one frame at once, and \<open>updateConfig\<close> restarts a running
  instance: the functions below take that frame, \<open>_animate\<close>, as the argument \<open>k\<close>.
\<close>

definition start_k :: "(starfield \<Rightarrow> starfield outcome) \<Rightarrow> starfield \<Rightarrow> starfield outcome" where
  "start_k k s = (if isRunning s then Done s else k (s\<lparr>isRunning := True\<rparr>))"

text \<open>What is left of an array after \<open>splice(start)\<close>.\<close>

definition splice_from :: "int \<Rightarrow> 'a list \<Rightarrow> 'a list" where
  "splice_from start xs =
     (if start < 0 then take (nat (int (length xs) + start)) xs else take (nat start) xs)"

text \<open>
  \<open>updateConfig\<close>, when \<open>newConfig.starCount\<close> is defined: the count is set from the
  merged configuration, and stars are added at the end or removed from the end.
\<close>

definition recountStars :: "starfield \<Rightarrow> starfield" where
  "recountStars s =
     (let oldStarCount = starCount s;
          newStarCount =
            (case cfg_starCount (config s) of
               Auto \<Rightarrow> detectDeviceCapability (config s) (browser s)
             | Count n \<Rightarrow> n);
          s1 = s\<lparr>starCount := newStarCount\<rparr>
      in if newStarCount > oldStarCount
         then (case pushStars (nat (newStarCount - oldStarCount)) (config s1) (stars s1) (browser s1) of
                 (ss, b) \<Rightarrow> s1\<lparr>stars := ss, browser := b\<rparr>)
         else if newStarCount < oldStarCount
         then s1\<lparr>stars := splice_from newStarCount (stars s1)\<rparr>
         else s1)"

text \<open>
  \<open>updateConfig\<close>, when \<open>newConfig.starCount\<close> is undefined and \<open>newConfig.starColors\<close>
  or \<open>newConfig.starSize\<close> is given: every star gets a new size and a new hue,
  each if its option is given.
\<close>

definition restyleStar :: "bool \<Rightarrow> bool \<Rightarrow> config \<Rightarrow> star \<Rightarrow> browser \<Rightarrow> star \<times> browser" where
  "restyleStar newSize newHue cfg st b =
     (let minHue = fst (hue_range (hue (starColors cfg)));
          maxHue = snd (hue_range (hue (starColors cfg)));
          sized =
            (if newSize
             then (case math_random b of (r, b') \<Rightarrow>
                     (st\<lparr>baseSize := size_min (starSize cfg)
                                        + r * (size_max (starSize cfg) - size_min (starSize cfg))\<rparr>, b'))
             else (st, b))
      in if newHue
         then (case math_random (snd sized) of (r, b') \<Rightarrow>
                 ((fst sized)\<lparr>star_hue := minHue + r * (maxHue - minHue)\<rparr>, b'))
         else sized)"

fun restyleStars :: "bool \<Rightarrow> bool \<Rightarrow> config \<Rightarrow> star list \<Rightarrow> browser \<Rightarrow> star list \<times> browser" where
  "restyleStars newSize newHue cfg [] b = ([], b)"
| "restyleStars newSize newHue cfg (st # rest) b =
     (case restyleStar newSize newHue cfg st b of (st', b') \<Rightarrow>
        (case restyleStars newSize newHue cfg rest b' of (rest', b'') \<Rightarrow> (st' # rest', b'')))"

definition restyle :: "new_config \<Rightarrow> starfield \<Rightarrow> starfield" where
  "restyle newConfig s =
     (let newSize = (new_starSize newConfig \<noteq> None);
          newHue = (case new_starColors newConfig of None \<Rightarrow> False | Some c \<Rightarrow> new_hue c \<noteq> None)
      in case restyleStars newSize newHue (config s) (stars s) (browser s) of
           (ss, b) \<Rightarrow> s\<lparr>stars := ss, browser := b\<rparr>)"

text \<open>The star array after the merge: the two branches of \<open>updateConfig\<close>.\<close>

definition applyStars :: "new_config \<Rightarrow> starfield \<Rightarrow> starfield" where
  "applyStars newConfig s =
     (if new_starCount newConfig \<noteq> None then recountStars s
      else if new_starColors newConfig \<noteq> None \<or> new_starSize newConfig \<noteq> None
      then restyle newConfig s
      else s)"

definition updateConfig_k ::
  "(starfield \<Rightarrow> starfield outcome) \<Rightarrow> new_config \<Rightarrow> starfield \<Rightarrow> starfield outcome" where
  "updateConfig_k k newConfig s =
     (let wasRunning = isRunning s;
          s1 = (if wasRunning then stop s else s)
      in case validateConfig newConfig of
           Some e \<Rightarrow> Threw e s1
         | None \<Rightarrow>
             (let s2 = s1\<lparr>config := mergeDeep (config s1) newConfig\<rparr>;
                  s3 = applyStars newConfig s2;
                  s4 = (if new_background newConfig \<noteq> None
                        then s3\<lparr>backgroundGradient := False\<rparr> else s3)
              in if wasRunning then start_k k s4 else Done s4))"

section \<open>The performance controller: one evaluation\<close>

text \<open>
  \<open>this.updateConfig({ starCount: clampedCount })\<close>. A count that is not finite
  fails the \<open>isFinite\<close> test of \<open>_validateConfig\<close>, which throws after the \<open>stop\<close>.
\<close>

definition applyStarCount ::
  "(starfield \<Rightarrow> starfield outcome) \<Rightarrow> jsint \<Rightarrow> starfield \<Rightarrow> starfield outcome" where
  "applyStarCount k clampedCount s =
     (case clampedCount of
        Val n \<Rightarrow> updateConfig_k k (no_options\<lparr>new_starCount := Some (Count n)\<rparr>) s
      | _ \<Rightarrow> Threw (Invalid ''starCount'') (if isRunning s then stop s else s))"

text \<open>
  \<open>_runOptimization\<close> from the point where \<open>fpsRatio\<close> is known (the logging of
  \<open>debug\<close> is left out).
\<close>

definition optimize_k ::
  "(starfield \<Rightarrow> starfield outcome) \<Rightarrow> real \<Rightarrow> jsnum \<Rightarrow> starfield \<Rightarrow> starfield outcome" where
  "optimize_k k now fpsRatio s =
     (let stats = performanceStats s;
          maxStars = maxStarCount (config s)
      in if \<not> initialCalibrationComplete stats
         then
           (let isWithinRange = (js_ge fpsRatio (Val 0.9) \<and> js_le fpsRatio (Val 1.5));
                maxAttemptsReached =
                  (initialCalibrationAttempts stats \<ge> maxInitialCalibrationAttempts stats)
            in if isWithinRange \<or> maxAttemptsReached
               then Done (s\<lparr>performanceStats :=
                              stats\<lparr>initialCalibrationComplete := True,
                                    lastOptimizationTime := Some now,
                                    calibrationStartTime := Some now\<rparr>,
                            browser := setItem storage_key (toString (starCount s)) (browser s)\<rparr>)
               else
                 (let stats1 = stats\<lparr>initialCalibrationAttempts :=
                                        Suc (initialCalibrationAttempts stats)\<rparr>;
                      clampedCount = calibrationCount (starCount s) maxStars fpsRatio
                  in if clampedCount = Val maxStars \<and> starCount s = maxStars
                        \<and> js_gt fpsRatio (Val 1.5)
                     then Done (s\<lparr>performanceStats :=
                                    stats1\<lparr>initialCalibrationComplete := True,
                                           lastOptimizationTime := Some now,
                                           calibrationStartTime := Some now\<rparr>,
                                  browser := setItem storage_key (toString maxStars) (browser s)\<rparr>)
                     else applyStarCount k clampedCount
                            (s\<lparr>performanceStats := stats1\<lparr>calibrationStartTime := Some now\<rparr>\<rparr>)))
         else
           (let isWithinRange = (js_ge fpsRatio (Val 0.85) \<and> js_le fpsRatio (Val 1.3))
            in if isWithinRange
               then Done (s\<lparr>performanceStats := stats\<lparr>calibrationStartTime := Some now\<rparr>\<rparr>)
               else
                 (let clampedCount = optimizationCount (starCount s) maxStars fpsRatio
                  in if js_lt (changePercent (starCount s) clampedCount) (Val 0.05)
                     then Done (s\<lparr>performanceStats := stats\<lparr>calibrationStartTime := Some now\<rparr>\<rparr>)
                     else applyStarCount k clampedCount
                            (s\<lparr>performanceStats :=
                                 stats\<lparr>calibrationStartTime := Some now,
                                       lastOptimizationTime := Some now\<rparr>,
                               browser := setItem storage_key (js_toString clampedCount) (browser s)\<rparr>))))"

text \<open>\<open>_runOptimization\<close>: the waiting, then the measurement, then the evaluation.\<close>

definition runOptimization_k ::
  "(starfield \<Rightarrow> starfield outcome) \<Rightarrow> real \<Rightarrow> starfield \<Rightarrow> starfield outcome" where
  "runOptimization_k k now s =
     (let stats = performanceStats s;
          isInitialPhase = (\<not> initialCalibrationComplete stats);
          measurementDuration =
            (if isInitialPhase then initialCalibrationDuration stats
             else continuousOptimizationDuration stats);
          elapsed = dbl_sub (Val now) (Val (time_value (calibrationStartTime stats)))
      in if js_lt elapsed (Val measurementDuration) then Done s
         else if \<not> isInitialPhase \<and> time_set (lastOptimizationTime stats)
                 \<and> js_lt (dbl_sub (Val now) (Val (time_value (lastOptimizationTime stats))))
                       (Val (optimizationInterval stats))
         then Done (s\<lparr>performanceStats := stats\<lparr>calibrationStartTime := Some now\<rparr>\<rparr>)
         else if length (frameTimestamps stats) < 10 then Done s
         else optimize_k k now
                (dbl_div (measuredFPS (frameTimestamps stats)) (Val (targetFPS stats))) s)"

section \<open>The animation loop\<close>

definition scheduleFrame :: "starfield \<Rightarrow> starfield" where
  "scheduleFrame s =
     (case requestAnimationFrame (browser s) of
        (i, b) \<Rightarrow> s\<lparr>animationId := Some i, browser := b\<rparr>)"

text \<open>\<open>_animate\<close>, where a restart inside the frame runs \<open>k\<close>.\<close>

definition animate_k :: "(starfield \<Rightarrow> starfield outcome) \<Rightarrow> starfield \<Rightarrow> starfield outcome" where
  "animate_k k s =
     (if \<not> isRunning s then Done s
      else
        (case performance_now (browser s) of (now, b) \<Rightarrow>
           (let stats1 = recordFrame now (performanceStats s);
                stats2 = (if \<not> time_set (calibrationStartTime stats1)
                          then stats1\<lparr>calibrationStartTime := Some now\<rparr> else stats1);
                s1 = s\<lparr>browser := b, performanceStats := stats2\<rparr>
            in case runOptimization_k k now s1 of
                 Done s2 \<Rightarrow> Done (scheduleFrame (render (update s2)))
               | Threw e s2 \<Rightarrow> Threw e s2
               | OutOfFuel \<Rightarrow> OutOfFuel)))"

text \<open>
  \<open>_animate\<close> itself: a frame may restart the animation, which runs a frame inside
  the frame; the first argument bounds this nesting.
\<close>

primrec animate :: "nat \<Rightarrow> starfield \<Rightarrow> starfield outcome" where
  "animate 0 = (\<lambda>s. OutOfFuel)"
| "animate (Suc fuel) = animate_k (animate fuel)"

definition start :: "nat \<Rightarrow> starfield \<Rightarrow> starfield outcome" where
  "start fuel = start_k (animate fuel)"

definition updateConfig :: "nat \<Rightarrow> new_config \<Rightarrow> starfield \<Rightarrow> starfield outcome" where
  "updateConfig fuel = updateConfig_k (animate fuel)"

definition getCurrentFPS :: "starfield \<Rightarrow> jsint" where
  "getCurrentFPS s = currentFPS (performanceStats s)"

section \<open>Construction\<close>

definition resize :: "starfield \<Rightarrow> starfield" where
  "resize s =
     s\<lparr>centerX := innerWidth (browser s) / 2,
       centerY := innerHeight (browser s) / 2,
       backgroundGradient := False\<rparr>"

text \<open>
  The constructor, once the canvas is found, up to the automatic start: the options
  are merged into the defaults and validated, the count is taken from the
  configuration or, for \<open>'auto'\<close>, from \<open>_detectDeviceCapability\<close>, and the stars are
  created.
\<close>

definition initialise :: "browser \<Rightarrow> new_config \<Rightarrow> error + starfield" where
  "initialise b options =
     (let cfg = mergeDeep defaults options
      in case validateConfig (all_options cfg) of
           Some e \<Rightarrow> Inl e
         | None \<Rightarrow>
             (let count = (case cfg_starCount cfg of
                             Auto \<Rightarrow> detectDeviceCapability cfg b
                           | Count n \<Rightarrow> n)
              in case pushStars (nat count) cfg [] b of
                   (ss, b') \<Rightarrow>
                     Inr (resize \<lparr>config = cfg, stars = ss, starCount = count,
                                  animationId = None, isRunning = False,
                                  backgroundGradient = False,
                                  performanceStats = initial_stats,
                                  centerX = 0, centerY = 0, canvas = [],
                                  browser = b'\<rparr>)))"

text \<open>\<open>destroy\<close> (the listener for the resizing of the window is not modelled).\<close>

definition destroy :: "starfield \<Rightarrow> starfield" where
  "destroy s = (stop s)\<lparr>stars := [], canvas := []\<rparr>"

definition construct :: "nat \<Rightarrow> browser \<Rightarrow> new_config \<Rightarrow> error + starfield outcome" where
  "construct fuel b options =
     (case initialise b options of
        Inl e \<Rightarrow> Inl e
      | Inr s \<Rightarrow> Inr (if autoStart (config s) then start fuel s else Done s))"


section \<open>Runs of the model\<close>





text \<open>
  Freshly sampled stars: what \<open>n\<close> calls of \<open>_createStar\<close> return when \<open>c\<close> random
  numbers of the sequence \<open>r\<close> have been drawn before.
\<close>

definition freshStars :: "config \<Rightarrow> (nat \<Rightarrow> real) \<Rightarrow> nat \<Rightarrow> nat \<Rightarrow> star list" where
  "freshStars cfg r c n =
     map (\<lambda>i. sampleStar cfg (r (c + 5 * i)) (r (c + 5 * i + 1)) (r (c + 5 * i + 2))
                  (r (c + 5 * i + 3)) (r (c + 5 * i + 4)))
       [0..<n]"

text \<open>
  A star after a frame, as the specification words it: its \<open>z\<close> is decreased by
  \<open>speed\<close>, and when that reaches \<open>-200\<close> or less the star is replaced by a freshly
  sampled one (five consecutive numbers of the random sequence \<open>r\<close>), with \<open>x\<close> and
  \<open>y\<close> in \<open>[-1000, 1000)\<close> and \<open>z\<close> in \<open>[0, 2000)\<close>.
\<close>

definition advanced :: "config \<Rightarrow> (nat \<Rightarrow> real) \<Rightarrow> star \<Rightarrow> star \<Rightarrow> bool" where
  "advanced cfg r st st' =
     (if star_z st - speed cfg \<le> - 200
      then (\<exists>j. st' = sampleStar cfg (r j) (r (j + 1)) (r (j + 2)) (r (j + 3)) (r (j + 4)))
           \<and> - 1000 \<le> star_x st' \<and> star_x st' < 1000
           \<and> - 1000 \<le> star_y st' \<and> star_y st' < 1000
           \<and> 0 \<le> star_z st' \<and> star_z st' < 2000
      else st' = st\<lparr>star_z := star_z st - speed cfg\<rparr>)"

text \<open>The phase of the controller and its counter of attempts.\<close>

abbreviation calibrated :: "starfield \<Rightarrow> bool" where
  "calibrated s \<equiv> initialCalibrationComplete (performanceStats s)"

abbreviation attempts :: "starfield \<Rightarrow> nat" where
  "attempts s \<equiv> initialCalibrationAttempts (performanceStats s)"



text \<open>A property of the state a call leaves behind, whether it returns or throws.\<close>

definition leaves :: "starfield outcome \<Rightarrow> (starfield \<Rightarrow> bool) \<Rightarrow> bool" where
  "leaves out P = (case out of Done s \<Rightarrow> P s | Threw e s \<Rightarrow> P s | OutOfFuel \<Rightarrow> True)"


section \<open>An instance for examples\<close>

text \<open>
  A browser with a frame every 20 ms and a storage without items, a star, and a
  stopped instance of \<open>n\<close> such stars with the default configuration.
\<close>

definition test_browser :: browser where
  "test_browser =
     \<lparr>now_readings = (\<lambda>n. real n * 20),
      now_count = 0,
      random_draws = (\<lambda>n. real (n mod 4) / 4),
      random_count = 0,
      localStorage = Items Map.empty,
      userAgentMobile = False,
      hardwareConcurrency = Some 8,
      innerWidth = 800,
      innerHeight = 600,
      next_frame = 1,
      requested_frames = []\<rparr>"

definition test_star :: star where
  "test_star = \<lparr>star_x = 100, star_y = - 50, star_z = 1000, baseSize = 1, star_hue = 200\<rparr>"

definition test_instance :: "nat \<Rightarrow> starfield" where
  "test_instance n =
     \<lparr>config = defaults,
      stars = replicate n test_star,
      starCount = int n,
      animationId = None,
      isRunning = False,
      backgroundGradient = False,
      performanceStats = initial_stats,
      centerX = 400,
      centerY = 300,
      canvas = [],
      browser = test_browser\<rparr>"


text \<open>The same instance once the initial calibration is complete.\<close>

definition test_calibrated :: "nat \<Rightarrow> starfield" where
  "test_calibrated n =
     (test_instance n)\<lparr>performanceStats := initial_stats\<lparr>initialCalibrationComplete := True\<rparr>\<rparr>"

section \<open>Double precision: properties\<close>












section \<open>The frame clock: properties\<close>

subsection \<open>Timestamps on a binary grid are summed without error\<close>







subsection \<open>The estimate, from the timestamps kept\<close>












section \<open>What the operations leave unchanged\<close>

lemma stop_fields [simp]:
  "performanceStats (stop s) = performanceStats s"
  "config (stop s) = config s"
  "stars (stop s) = stars s"
  "starCount (stop s) = starCount s"
  "isRunning (stop s) = False"
  by (simp_all add: stop_def Let_def split: option.splits)

lemma recountStars_fields [simp]:
  "performanceStats (recountStars s) = performanceStats s"
  "config (recountStars s) = config s"
  "isRunning (recountStars s) = isRunning s"
  by (simp_all add: recountStars_def Let_def split: prod.splits star_setting.splits)

lemma recountStars_Count:
  "cfg_starCount (config s) = Count n \<Longrightarrow> starCount (recountStars s) = n"
  by (simp add: recountStars_def Let_def split: prod.splits)

lemma restyle_fields [simp]:
  "performanceStats (restyle nc s) = performanceStats s"
  "config (restyle nc s) = config s"
  "isRunning (restyle nc s) = isRunning s"
  "starCount (restyle nc s) = starCount s"
  by (simp_all add: restyle_def Let_def split: prod.splits)

lemma applyStars_fields [simp]:
  "performanceStats (applyStars nc s) = performanceStats s"
  "config (applyStars nc s) = config s"
  "isRunning (applyStars nc s) = isRunning s"
  by (simp_all add: applyStars_def)

lemma frame_fields [simp]:
  "performanceStats (update s) = performanceStats s"
  "performanceStats (render s) = performanceStats s"
  "performanceStats (scheduleFrame s) = performanceStats s"
  by (simp_all add: update_def render_def scheduleFrame_def Let_def split: prod.splits)

text \<open>An update that passes the validation, step by step.\<close>

lemma updateConfig_k_valid:
  assumes "validateConfig nc = None"
  shows "updateConfig_k k nc s =
     (let s1 = (if isRunning s then stop s else s);
          s3 = applyStars nc (s1\<lparr>config := mergeDeep (config s1) nc\<rparr>);
          s4 = (if new_background nc \<noteq> None then s3\<lparr>backgroundGradient := False\<rparr> else s3)
      in if isRunning s then k (s4\<lparr>isRunning := True\<rparr>) else Done s4)"
  using assms by (simp add: updateConfig_k_def Let_def start_k_def)

lemma validate_count:
  "1 \<le> n \<Longrightarrow> n \<le> 10000 \<Longrightarrow> validateConfig (no_options\<lparr>new_starCount := Some (Count n)\<rparr>) = None"
  by (simp add: validateConfig_def no_options_def validate_opt_def validate_def)

lemma mergeDeep_count:
  "mergeDeep cfg (no_options\<lparr>new_starCount := Some (Count n)\<rparr>) = cfg\<lparr>cfg_starCount := Count n\<rparr>"
  by (simp add: mergeDeep_def no_options_def override_def)

lemma updateConfig_k_count:
  assumes "1 \<le> n" and "n \<le> 10000"
  shows "updateConfig_k k (no_options\<lparr>new_starCount := Some (Count n)\<rparr>) s =
     (let s1 = (if isRunning s then stop s else s);
          t = recountStars (s1\<lparr>config := (config s)\<lparr>cfg_starCount := Count n\<rparr>\<rparr>)
      in if isRunning s then k (t\<lparr>isRunning := True\<rparr>) else Done t)"
  using validate_count[OF assms]
  by (simp add: updateConfig_k_valid Let_def mergeDeep_count applyStars_def) (simp add: no_options_def)

section \<open>Continuous optimization: the size of a step\<close>

lemma maxChange_nonneg: "1 \<le> c \<Longrightarrow> 0 \<le> round (real_of_int c * 0.2)"
proof -
  assume "1 \<le> c"
  then have "(0::real) \<le> real_of_int c * 0.2" by simp
  from round_mono[OF this] show ?thesis by simp
qed

text \<open>The count of a step is the clamp to \<open>[100, maxStars]\<close> of a count within \<open>maxChange\<close>.\<close>

lemma optimizationCount_step:
  assumes "1 \<le> c" and "r \<noteq> NaN"
  shows "\<exists>y. optimizationCount c m r = Val (max 100 (min m y))
           \<and> c - round (real_of_int c * 0.2) \<le> y \<and> y \<le> c + round (real_of_int c * 0.2)"
proof -
  have mc: "0 \<le> round (real_of_int c * 0.2)" using assms(1) by (rule maxChange_nonneg)
  have pos: "0 < real_of_int c" using assms(1) by simp
  show ?thesis
  proof (cases r)
    case (Val a)
    let ?y = "max (c - round (real_of_int c * 0.2))
                (min (c + round (real_of_int c * 0.2)) (round (real_of_int c * (a * 0.9))))"
    have "optimizationCount c m r = Val (max 100 (min m ?y))"
      using Val by (simp add: optimizationCount_def clampCount_def Let_def)
    moreover have "c - round (real_of_int c * 0.2) \<le> ?y" by simp
    moreover have "?y \<le> c + round (real_of_int c * 0.2)" using mc by simp
    ultimately show ?thesis by blast
  next
    case PInf
    have "optimizationCount c m r = Val (max 100 (min m (c + round (real_of_int c * 0.2))))"
      using PInf pos mc
      by (simp add: optimizationCount_def clampCount_def Let_def signed_inf_def max_def)
    then show ?thesis using mc by (intro exI[of _ "c + round (real_of_int c * 0.2)"]) simp
  next
    case NInf
    have "optimizationCount c m r = Val (max 100 (min m (c - round (real_of_int c * 0.2))))"
      using NInf pos mc
      by (simp add: optimizationCount_def clampCount_def Let_def signed_inf_def)
    then show ?thesis using mc by (intro exI[of _ "c - round (real_of_int c * 0.2)"]) simp
  next
    case NaN
    with assms show ?thesis by simp
  qed
qed

lemma clamp_near:
  fixes c :: int
  shows "100 \<le> c \<Longrightarrow> c \<le> m \<Longrightarrow> c - d \<le> y \<Longrightarrow> y \<le> c + d
           \<Longrightarrow> \<bar>max 100 (min m y) - c\<bar> \<le> d"
  by linarith

lemma changePercent_Val:
  "1 \<le> c \<Longrightarrow> changePercent c (Val n) = Val (\<bar>real_of_int n - real_of_int c\<bar> / real_of_int c)"
  by (simp add: changePercent_def js_sub_def)

text \<open>
  Claim C1, as amended. In continuous optimization, for a current count of at least 1
  and any measured ratio, an evaluation either only resets the measurement window, or
  it updates the configuration to a count \<open>n\<close>; then the ratio is outside
  \<open>[0.85, 1.3]\<close>, and \<open>n\<close> differs from the current count by at least 5% of it. If
  the current count lies in \<open>[100, maxStarCount]\<close>, \<open>n\<close> differs from it by at most
  \<open>maxChange = round(0.2 * count)\<close>, which is at most 20% of it plus one half.
\<close>

theorem continuous_step_bounded:
  assumes complete: "initialCalibrationComplete (performanceStats s)"
      and pos: "1 \<le> starCount s"
      and ratio: "fpsRatio \<noteq> NaN"
  shows "optimize_k k now fpsRatio s
           = Done (s\<lparr>performanceStats := (performanceStats s)\<lparr>calibrationStartTime := Some now\<rparr>\<rparr>)
       \<or> (\<exists>n. optimize_k k now fpsRatio s
                 = updateConfig_k k (no_options\<lparr>new_starCount := Some (Count n)\<rparr>)
                     (s\<lparr>performanceStats :=
                          (performanceStats s)\<lparr>calibrationStartTime := Some now,
                                                lastOptimizationTime := Some now\<rparr>,
                        browser := setItem storage_key (toString n) (browser s)\<rparr>)
              \<and> \<not> (js_ge fpsRatio (Val 0.85) \<and> js_le fpsRatio (Val 1.3))
              \<and> optimizationCount (starCount s) (maxStarCount (config s)) fpsRatio = Val n
              \<and> 0.05 * real_of_int (starCount s) \<le> \<bar>real_of_int n - real_of_int (starCount s)\<bar>
              \<and> (100 \<le> starCount s \<and> starCount s \<le> maxStarCount (config s) \<longrightarrow>
                    \<bar>n - starCount s\<bar> \<le> round (real_of_int (starCount s) * 0.2)
                  \<and> \<bar>real_of_int n - real_of_int (starCount s)\<bar>
                      \<le> 0.2 * real_of_int (starCount s) + 1 / 2))"
proof -
  let ?c = "starCount s" and ?m = "maxStarCount (config s)"
  obtain y where y: "optimizationCount ?c ?m fpsRatio = Val (max 100 (min ?m y))"
      "?c - round (real_of_int ?c * 0.2) \<le> y" "y \<le> ?c + round (real_of_int ?c * 0.2)"
    using optimizationCount_step[OF pos ratio] by blast
  define n where "n = max 100 (min ?m y)"
  have n: "optimizationCount ?c ?m fpsRatio = Val n" using y(1) by (simp add: n_def)
  have cpos: "0 < real_of_int ?c" using pos by simp
  show ?thesis
  proof (cases "(js_ge fpsRatio (Val 0.85) \<and> js_le fpsRatio (Val 1.3))
                 \<or> js_lt (changePercent ?c (Val n)) (Val 0.05)")
    case True
    then have "optimize_k k now fpsRatio s
           = Done (s\<lparr>performanceStats := (performanceStats s)\<lparr>calibrationStartTime := Some now\<rparr>\<rparr>)"
      using complete n by (auto simp add: optimize_k_def Let_def)
    then show ?thesis by blast
  next
    case False
    then have run: "optimize_k k now fpsRatio s
                 = updateConfig_k k (no_options\<lparr>new_starCount := Some (Count n)\<rparr>)
                     (s\<lparr>performanceStats :=
                          (performanceStats s)\<lparr>calibrationStartTime := Some now,
                                                lastOptimizationTime := Some now\<rparr>,
                        browser := setItem storage_key (toString n) (browser s)\<rparr>)"
      using complete n by (auto simp add: optimize_k_def Let_def applyStarCount_def)
    from False have "\<not> \<bar>real_of_int n - real_of_int ?c\<bar> / real_of_int ?c < 0.05"
      by (simp add: changePercent_Val[OF pos])
    then have five: "0.05 * real_of_int ?c \<le> \<bar>real_of_int n - real_of_int ?c\<bar>"
      using cpos by (simp add: field_simps)
    have twenty: "\<bar>n - ?c\<bar> \<le> round (real_of_int ?c * 0.2)
                  \<and> \<bar>real_of_int n - real_of_int ?c\<bar> \<le> 0.2 * real_of_int ?c + 1 / 2"
      if "100 \<le> ?c" "?c \<le> ?m"
    proof -
      have a: "\<bar>n - ?c\<bar> \<le> round (real_of_int ?c * 0.2)"
        unfolding n_def using that y(2,3) by (rule clamp_near)
      then have "real_of_int \<bar>n - ?c\<bar> \<le> real_of_int (round (real_of_int ?c * 0.2))"
        by (simp only: of_int_le_iff)
      also have "\<dots> \<le> real_of_int ?c * 0.2 + 1 / 2" by (rule of_int_round_le)
      finally have "\<bar>real_of_int n - real_of_int ?c\<bar> \<le> 0.2 * real_of_int ?c + 1 / 2"
        by simp
      with a show ?thesis by simp
    qed
    from run False n five twenty show ?thesis by blast
  qed
qed

text \<open>
  The theorem at an instance of 1000 stars in continuous optimization, measured at
  half the target rate, where the step goes to 800 stars.
\<close>

theorem continuous_step_bounded_witness:
  "initialCalibrationComplete (performanceStats (test_calibrated 1000))
   \<and> 1 \<le> starCount (test_calibrated 1000)
   \<and> Val (1 / 2) \<noteq> (NaN :: jsnum)
   \<and> optimizationCount (starCount (test_calibrated 1000))
        (maxStarCount (config (test_calibrated 1000))) (Val (1 / 2)) = Val 800
   \<and> (optimize_k Done 0 (Val (1 / 2)) (test_calibrated 1000)
         = Done ((test_calibrated 1000)
                  \<lparr>performanceStats :=
                     (performanceStats (test_calibrated 1000))\<lparr>calibrationStartTime := Some 0\<rparr>\<rparr>)
       \<or> (\<exists>n. optimize_k Done 0 (Val (1 / 2)) (test_calibrated 1000)
                 = updateConfig_k Done (no_options\<lparr>new_starCount := Some (Count n)\<rparr>)
                     ((test_calibrated 1000)
                        \<lparr>performanceStats :=
                           (performanceStats (test_calibrated 1000))
                             \<lparr>calibrationStartTime := Some 0, lastOptimizationTime := Some 0\<rparr>,
                         browser := setItem storage_key (toString n) (browser (test_calibrated 1000))\<rparr>)
              \<and> \<bar>n - 1000\<bar> \<le> 200 \<and> 50 \<le> \<bar>n - 1000\<bar>))"
proof -
  let ?s = "test_calibrated 1000"
  have h1: "initialCalibrationComplete (performanceStats ?s)"
    by (simp add: test_calibrated_def)
  have c: "starCount ?s = 1000" "maxStarCount (config ?s) = 10000"
    by (simp_all add: test_calibrated_def test_instance_def defaults_def)
  have h2: "1 \<le> starCount ?s" by (simp add: c)
  have h3: "Val (1 / 2) \<noteq> (NaN :: jsnum)" by simp
  have n: "optimizationCount (starCount ?s) (maxStarCount (config ?s)) (Val (1 / 2)) = Val 800"
    by (simp add: c optimizationCount_def clampCount_def Let_def round_def)
  have "optimize_k Done 0 (Val (1 / 2)) ?s
         = Done (?s\<lparr>performanceStats := (performanceStats ?s)\<lparr>calibrationStartTime := Some 0\<rparr>\<rparr>)
       \<or> (\<exists>n. optimize_k Done 0 (Val (1 / 2)) ?s
                 = updateConfig_k Done (no_options\<lparr>new_starCount := Some (Count n)\<rparr>)
                     (?s\<lparr>performanceStats :=
                           (performanceStats ?s)
                             \<lparr>calibrationStartTime := Some 0, lastOptimizationTime := Some 0\<rparr>,
                         browser := setItem storage_key (toString n) (browser ?s)\<rparr>)
              \<and> \<bar>n - 1000\<bar> \<le> 200 \<and> 50 \<le> \<bar>n - 1000\<bar>)"
    using continuous_step_bounded[OF h1 h2 h3, of Done 0] unfolding c
    by (auto simp add: round_def)
  with h1 h2 h3 n show ?thesis by blast
qed

text \<open>A step of the continuous optimization that is applied, on a stopped instance.\<close>

lemma continuous_step_applied:
  assumes "initialCalibrationComplete (performanceStats s)" and "\<not> isRunning s"
      and "\<not> (js_ge r (Val 0.85) \<and> js_le r (Val 1.3))"
      and "optimizationCount (starCount s) (maxStarCount (config s)) r = Val n"
      and "\<not> js_lt (changePercent (starCount s) (Val n)) (Val 0.05)"
      and "1 \<le> n" and "n \<le> 10000"
  shows "\<exists>t. optimize_k k now r s = Done t \<and> starCount t = n"
  using assms(1-5)
  by (auto simp add: optimize_k_def Let_def applyStarCount_def updateConfig_k_count[OF assms(6,7)]
      recountStars_Count)

text \<open>
  The claim as stated fails. From 103 stars at 1.5 times the target rate the step
  goes to 124 stars, since \<open>maxChange = round(20.6) = 21\<close>: 20.4% more. From 50
  stars at half the target rate the step goes to 100 stars, the lower bound of the
  clamp: twice as many.
\<close>

theorem continuous_step_counterexample:
  "optimizationCount 103 10000 (Val (3 / 2)) = Val 124
   \<and> (\<exists>t. optimize_k Done 0 (Val (3 / 2)) (test_calibrated 103) = Done t \<and> starCount t = 124)
   \<and> js_gt (changePercent 103 (Val 124)) (Val 0.2)
   \<and> optimizationCount 50 10000 (Val (1 / 2)) = Val 100
   \<and> (\<exists>t. optimize_k Done 0 (Val (1 / 2)) (test_calibrated 50) = Done t \<and> starCount t = 100)
   \<and> js_gt (changePercent 50 (Val 100)) (Val 0.2)"
proof -
  have c: "optimizationCount 103 10000 (Val (3 / 2)) = Val 124"
      "optimizationCount 50 10000 (Val (1 / 2)) = Val 100"
    by (simp_all add: optimizationCount_def clampCount_def Let_def round_def)
  have p: "js_gt (changePercent 103 (Val 124)) (Val 0.2)"
      "js_gt (changePercent 50 (Val 100)) (Val 0.2)"
    by (simp_all add: changePercent_def js_sub_def js_gt_def)
  have r: "\<not> (js_ge (Val (3 / 2) :: jsnum) (Val 0.85) \<and> js_le (Val (3 / 2) :: jsnum) (Val 1.3))"
      "\<not> (js_ge (Val (1 / 2) :: jsnum) (Val 0.85) \<and> js_le (Val (1 / 2) :: jsnum) (Val 1.3))"
    by (simp_all add: js_ge_def)
  have s: "initialCalibrationComplete (performanceStats (test_calibrated n))"
      "\<not> isRunning (test_calibrated n)" "starCount (test_calibrated n) = int n"
      "maxStarCount (config (test_calibrated n)) = 10000" for n
    by (simp_all add: test_calibrated_def test_instance_def defaults_def)
  have a: "\<exists>t. optimize_k Done 0 (Val (3 / 2)) (test_calibrated 103) = Done t \<and> starCount t = 124"
    by (rule continuous_step_applied[OF s(1,2) r(1)])
       (simp_all add: s c changePercent_def js_sub_def)
  have b: "\<exists>t. optimize_k Done 0 (Val (1 / 2)) (test_calibrated 50) = Done t \<and> starCount t = 100"
    by (rule continuous_step_applied[OF s(1,2) r(2)])
       (simp_all add: s c changePercent_def js_sub_def)
  from c p a b show ?thesis by blast
qed

section \<open>The two phases of the controller\<close>

subsection \<open>A new instance is in the initial calibration\<close>


lemma initialise_valid:
  assumes "validateConfig (all_options (mergeDeep defaults options)) = None"
  shows "\<exists>s. initialise b options = Inr s"
proof -
  let ?cfg = "mergeDeep defaults options"
  let ?count = "case cfg_starCount ?cfg of Auto \<Rightarrow> detectDeviceCapability ?cfg b | Count n \<Rightarrow> n"
  obtain ss b' where "pushStars (nat ?count) ?cfg [] b = (ss, b')"
    by (cases "pushStars (nat ?count) ?cfg [] b")
  with assms show ?thesis by (simp add: initialise_def Let_def)
qed

subsection \<open>No operation leaves the continuous optimization\<close>

lemma leaves_Done [simp]: "leaves (Done s) P = P s"
  and leaves_Threw [simp]: "leaves (Threw e s) P = P s"
  and leaves_OutOfFuel [simp]: "leaves OutOfFuel P"
  by (simp_all add: leaves_def)





lemma recordFrame_calibrated [simp]:
  "initialCalibrationComplete (recordFrame now st) = initialCalibrationComplete st"
  by (simp add: recordFrame_def Let_def)





subsection \<open>What a frame leaves of the clock and of the star array\<close>

lemma double_zero [simp]: "double 0 = Val 0"
  by (simp add: double_def Let_def round_even_def)

lemma createStar_clock:
  "now_readings (snd (createStar cfg b)) = now_readings b"
  "now_count (snd (createStar cfg b)) = now_count b"
  by (simp_all add: createStar_def Let_def)

lemma pushStars_clock:
  "now_readings (snd (pushStars n cfg ss b)) = now_readings b
   \<and> now_count (snd (pushStars n cfg ss b)) = now_count b
   \<and> length (fst (pushStars n cfg ss b)) = length ss + n"
proof (induction n arbitrary: ss b)
  case 0
  show ?case by simp
next
  case (Suc n)
  obtain st b' where c: "createStar cfg b = (st, b')" by (cases "createStar cfg b")
  have "now_readings b' = now_readings b" "now_count b' = now_count b"
    using createStar_clock[of cfg b] c by simp_all
  with Suc[of "ss @ [st]" b'] c show ?case by simp
qed

lemma updateStars_clock:
  "now_readings (snd (updateStars cfg ss b)) = now_readings b
   \<and> now_count (snd (updateStars cfg ss b)) = now_count b
   \<and> length (fst (updateStars cfg ss b)) = length ss"
proof (induction ss arbitrary: b)
  case Nil
  show ?case by simp
next
  case (Cons st ss)
  obtain nst b' where c: "createStar cfg b = (nst, b')" by (cases "createStar cfg b")
  have b': "now_readings b' = now_readings b" "now_count b' = now_count b"
    using createStar_clock[of cfg b] c by simp_all
  show ?case
    using Cons[of b] Cons[of b'] c b' by (auto split: prod.splits)
qed

lemma stop_clock [simp]:
  "now_readings (browser (stop s)) = now_readings (browser s)"
  "now_count (browser (stop s)) = now_count (browser s)"
  by (simp_all add: stop_def Let_def cancelAnimationFrame_def split: option.splits)

lemma recountStars_clock [simp]:
  "now_readings (browser (recountStars s)) = now_readings (browser s)"
  "now_count (browser (recountStars s)) = now_count (browser s)"
  using pushStars_clock[of "nat ((case cfg_starCount (config s) of
           Auto \<Rightarrow> detectDeviceCapability (config s) (browser s) | Count n \<Rightarrow> n) - starCount s)"
        "config s" "stars s" "browser s"]
  by (auto simp add: recountStars_def Let_def split: prod.splits)


lemma update_clock [simp]:
  "now_readings (browser (update s)) = now_readings (browser s)"
  "now_count (browser (update s)) = now_count (browser s)"
  "length (stars (update s)) = length (stars s)"
  "isRunning (update s) = isRunning s"
  using updateStars_clock[of "config s" "stars s" "browser s"]
  by (auto simp add: update_def split: prod.splits)

lemma render_clock [simp]:
  "browser (render s) = browser s"
  "stars (render s) = stars s"
  "isRunning (render s) = isRunning s"
  by (simp_all add: render_def Let_def)

lemma scheduleFrame_clock [simp]:
  "now_readings (browser (scheduleFrame s)) = now_readings (browser s)"
  "now_count (browser (scheduleFrame s)) = now_count (browser s)"
  "stars (scheduleFrame s) = stars s"
  "isRunning (scheduleFrame s) = isRunning s"
  by (simp_all add: scheduleFrame_def requestAnimationFrame_def split: prod.splits)

lemma frame_keeps_count [simp]:
  "starCount (update s) = starCount s" "config (update s) = config s"
  "starCount (render s) = starCount s" "config (render s) = config s"
  "starCount (scheduleFrame s) = starCount s" "config (scheduleFrame s) = config s"
  by (simp_all add: update_def render_def scheduleFrame_def Let_def split: prod.splits)

lemma recordFrame_controller [simp]:
  "initialCalibrationAttempts (recordFrame now st) = initialCalibrationAttempts st"
  "maxInitialCalibrationAttempts (recordFrame now st) = maxInitialCalibrationAttempts st"
  "calibrationStartTime (recordFrame now st) = calibrationStartTime st"
  "initialCalibrationDuration (recordFrame now st) = initialCalibrationDuration st"
  "continuousOptimizationDuration (recordFrame now st) = continuousOptimizationDuration st"
  by (simp_all add: recordFrame_def Let_def)


text \<open>
  A frame of a running instance that finds the measurement window closed, the
  interval between two adjustments over, and ten timestamps or more: the controller
  is evaluated with the ratio measured from the timestamps, and a restart that it
  asks for runs the next frame inside this one.
\<close>

lemma frame_evaluates:
  assumes run: "isRunning s"
      and now: "now = now_readings (browser s) (now_count (browser s))"
      and stats: "stats = (let st = recordFrame now (performanceStats s)
                           in if \<not> time_set (calibrationStartTime st)
                              then st\<lparr>calibrationStartTime := Some now\<rparr> else st)"
      and closed: "\<not> js_lt (dbl_sub (Val now) (Val (time_value (calibrationStartTime stats))))
                     (Val (if calibrated s then continuousOptimizationDuration stats
                           else initialCalibrationDuration stats))"
      and due: "\<not> (calibrated s \<and> time_set (lastOptimizationTime stats)
                   \<and> js_lt (dbl_sub (Val now) (Val (time_value (lastOptimizationTime stats))))
                         (Val (optimizationInterval stats)))"
      and samples: "10 \<le> length (frameTimestamps stats)"
  shows "animate (Suc (Suc fuel)) s =
     (case optimize_k (animate (Suc fuel)) now
             (dbl_div (measuredFPS (frameTimestamps stats)) (Val (targetFPS stats)))
             (s\<lparr>browser := (browser s)\<lparr>now_count := Suc (now_count (browser s))\<rparr>,
                performanceStats := stats\<rparr>) of
        Done s2 \<Rightarrow> Done (scheduleFrame (render (update s2)))
      | Threw e s2 \<Rightarrow> Threw e s2
      | OutOfFuel \<Rightarrow> OutOfFuel)"
proof -
  define s1 where "s1 = s\<lparr>browser := (browser s)\<lparr>now_count := Suc (now_count (browser s))\<rparr>,
                performanceStats := stats\<rparr>"
  have c: "initialCalibrationComplete stats = calibrated s"
    by (simp add: stats Let_def)
  have f: "animate (Suc (Suc fuel)) s =
     (case runOptimization_k (animate (Suc fuel)) now s1 of
        Done s2 \<Rightarrow> Done (scheduleFrame (render (update s2)))
      | Threw e s2 \<Rightarrow> Threw e s2
      | OutOfFuel \<Rightarrow> OutOfFuel)"
    using run by (simp add: animate_k_def performance_now_def now Let_def stats s1_def)
  have p: "performanceStats s1 = stats" by (simp add: s1_def)
  have "runOptimization_k (animate (Suc fuel)) now s1 =
      optimize_k (animate (Suc fuel)) now
             (dbl_div (measuredFPS (frameTimestamps stats)) (Val (targetFPS stats))) s1"
    unfolding runOptimization_k_def Let_def p
    using closed due samples c by auto
  then show ?thesis unfolding f s1_def by simp
qed

subsection \<open>Calibration at half the target rate\<close>



lemma setItem_clock [simp]:
  "now_readings (setItem key v b) = now_readings b"
  "now_count (setItem key v b) = now_count b"
  by (simp_all add: setItem_def split: storage.splits)






section \<open>Initial calibration: the count of a step\<close>

lemma aggressiveness_Val: "aggressiveness (Val r) = Val (0.75 + min r 4 / 20)"
  by (simp add: aggressiveness_def)

lemma aggressiveness_mono:
  "r \<le> r' \<Longrightarrow> js_le (aggressiveness (Val r)) (aggressiveness (Val r'))"
  by (simp add: aggressiveness_Val min_def)

lemma aggressiveness_saturates: "4 \<le> r \<Longrightarrow> aggressiveness (Val r) = Val 0.95"
  by (simp add: aggressiveness_Val min_def)

lemma aggressiveness_PInf: "aggressiveness PInf = Val 0.95"
  by (simp add: aggressiveness_def)

lemma calibrationCount_Val:
  "calibrationCount c m (Val r) =
     Val (max 100 (min m (round (real_of_int c * (r * (0.75 + min r 4 / 20))))))"
  by (simp add: calibrationCount_def clampCount_def aggressiveness_Val)

text \<open>
  A step of the initial calibration whose count passes the validation of
  \<open>updateConfig\<close> (it is at most 10000): the count is set to the rounded product,
  clamped to \<open>[100, maxStarCount]\<close>. The state \<open>t\<close> is the one the call returns, or
  the one handed to the frame of the restart.
\<close>

lemma calibration_step_when_valid:
  assumes phase: "\<not> calibrated s"
      and left: "attempts s < maxInitialCalibrationAttempts (performanceStats s)"
      and out: "\<not> (0.9 \<le> r \<and> r \<le> 1.5)"
      and n: "n = max 100 (min (maxStarCount (config s))
                    (round (real_of_int (starCount s) * (r * (0.75 + min r 4 / 20)))))"
      and valid: "n \<le> 10000"
  shows "\<exists>t. optimize_k k now (Val r) s
              = (if n = maxStarCount (config s) \<and> starCount s = maxStarCount (config s) \<and> 1.5 < r
                 then Done t
                 else if isRunning s then k (t\<lparr>isRunning := True\<rparr>) else Done t)
           \<and> starCount t = n \<and> attempts t = Suc (attempts s)"
proof -
  have n1: "1 \<le> n" using n by simp
  have inrange: "\<not> (js_ge (Val r) (Val 0.9) \<and> js_le (Val r) (Val 1.5))"
    using out by (simp add: js_ge_def)
  have c: "calibrationCount (starCount s) (maxStarCount (config s)) (Val r) = Val n"
    by (simp add: calibrationCount_Val n)
  show ?thesis
  proof (cases "n = maxStarCount (config s) \<and> starCount s = maxStarCount (config s) \<and> 1.5 < r")
    case True
    then show ?thesis
      using phase left inrange c
      by (cases "isRunning s") (auto simp add: optimize_k_def Let_def js_gt_def)
  next
    case False
    then have "optimize_k k now (Val r) s
        = applyStarCount k (Val n)
            (s\<lparr>performanceStats :=
                 (performanceStats s)\<lparr>initialCalibrationAttempts := Suc (attempts s),
                                       calibrationStartTime := Some now\<rparr>\<rparr>)"
      using phase left inrange c by (auto simp add: optimize_k_def Let_def js_gt_def)
    with False show ?thesis
      by (cases "isRunning s")
         (auto simp add: applyStarCount_def updateConfig_k_count[OF n1 valid] Let_def
            recountStars_Count)
  qed
qed

text \<open>
  Claim C3 at its failing input: 8000 stars, \<open>maxStarCount\<close> 20000, a measured ratio of
  2 (120 FPS), running, in the first evaluation of the initial calibration. The
  clamped count is 13600, which \<open>_validateConfig\<close> rejects as a \<open>starCount\<close>: the
  evaluation throws, after \<open>updateConfig\<close> has stopped the animation, and the count
  is still 8000.
\<close>

theorem calibration_count_rejected:
  "calibrationCount 8000 20000 (Val 2) = Val 13600
   \<and> validateConfig (no_options\<lparr>new_starCount := Some (Count 13600)\<rparr>) = Some (Invalid ''starCount'')
   \<and> (\<exists>s'. optimize_k k now (Val 2)
               ((test_instance 8000)
                  \<lparr>isRunning := True,
                   config := defaults\<lparr>cfg_starCount := Count 8000, maxStarCount := 20000\<rparr>\<rparr>)
             = Threw (Invalid ''starCount'') s'
           \<and> starCount s' = 8000 \<and> length (stars s') = 8000 \<and> \<not> isRunning s'
           \<and> \<not> calibrated s' \<and> attempts s' = 1)"
proof -
  have c: "calibrationCount 8000 20000 (Val 2) = Val 13600"
    by (simp add: calibrationCount_Val)
  have v: "validateConfig (no_options\<lparr>new_starCount := Some (Count 13600)\<rparr>) = Some (Invalid ''starCount'')"
    by (simp add: validateConfig_def no_options_def validate_opt_def validate_def)
  let ?s = "(test_instance 8000)
                  \<lparr>isRunning := True,
                   config := defaults\<lparr>cfg_starCount := Count 8000, maxStarCount := 20000\<rparr>\<rparr>"
  have s: "starCount ?s = 8000" "maxStarCount (config ?s) = 20000" "\<not> calibrated ?s"
      "attempts ?s = 0" "maxInitialCalibrationAttempts (performanceStats ?s) = 8" "isRunning ?s"
      "length (stars ?s) = 8000"
    by (simp_all add: test_instance_def initial_stats_def)
  have r: "\<not> (js_ge (Val 2 :: jsnum) (Val 0.9) \<and> js_le (Val 2 :: jsnum) (Val 1.5))"
    by (simp add: js_ge_def)
  let ?s1 = "?s\<lparr>performanceStats :=
                 (performanceStats ?s)\<lparr>initialCalibrationAttempts := Suc (attempts ?s),
                                        calibrationStartTime := Some now\<rparr>\<rparr>"
  have "optimize_k k now (Val 2) ?s = applyStarCount k (Val 13600) ?s1"
    unfolding optimize_k_def Let_def using s(1-5) r c by simp
  also have "\<dots> = Threw (Invalid ''starCount'') (stop ?s1)"
    using v s(6) by (simp add: applyStarCount_def updateConfig_k_def Let_def)
  finally have "optimize_k k now (Val 2) ?s = Threw (Invalid ''starCount'') (stop ?s1)" .
  moreover have "starCount (stop ?s1) = 8000" "length (stars (stop ?s1)) = 8000"
      "\<not> isRunning (stop ?s1)" "\<not> calibrated (stop ?s1)" "attempts (stop ?s1) = 1"
    using s by simp_all
  ultimately show ?thesis using c v by blast
qed

section \<open>An update that fails the validation\<close>

lemma updateConfig_k_invalid:
  "validateConfig nc = Some e \<Longrightarrow>
     updateConfig_k k nc s = Threw e (if isRunning s then stop s else s)"
  by (simp add: updateConfig_k_def Let_def)

lemma stop_stops:
  "animationId s = Some i \<Longrightarrow> i \<noteq> 0 \<Longrightarrow>
     animationId (stop s) = None \<and> i \<notin> set (requested_frames (browser (stop s)))"
  by (simp add: stop_def Let_def cancelAnimationFrame_def)

text \<open>
  Claim C7 at its failing input: a running instance, with its next frame requested,
  is updated with \<open>speed: 100\<close>. The update throws and changes neither the
  configuration nor the stars, but \<open>updateConfig\<close> has called \<open>stop\<close> before the
  validation: the instance is left stopped, its requested frame cancelled.
\<close>

theorem invalid_update_stops:
  "validateConfig (no_options\<lparr>new_speed := Some 100\<rparr>) = Some (Invalid ''speed'')
   \<and> isRunning ((test_instance 3)\<lparr>isRunning := True, animationId := Some 1,
                   browser := test_browser\<lparr>next_frame := 2, requested_frames := [1]\<rparr>\<rparr>)
   \<and> (\<exists>s'. updateConfig fuel (no_options\<lparr>new_speed := Some 100\<rparr>)
               ((test_instance 3)\<lparr>isRunning := True, animationId := Some 1,
                   browser := test_browser\<lparr>next_frame := 2, requested_frames := [1]\<rparr>\<rparr>)
             = Threw (Invalid ''speed'') s'
           \<and> \<not> isRunning s' \<and> animationId s' = None \<and> requested_frames (browser s') = []
           \<and> config s' = config (test_instance 3) \<and> stars s' = stars (test_instance 3)
           \<and> starCount s' = 3)"
proof -
  let ?nc = "no_options\<lparr>new_speed := Some 100\<rparr>"
  let ?r = "(test_instance 3)\<lparr>isRunning := True, animationId := Some 1,
                   browser := test_browser\<lparr>next_frame := 2, requested_frames := [1]\<rparr>\<rparr>"
  have v: "validateConfig ?nc = Some (Invalid ''speed'')"
    by (simp add: validateConfig_def no_options_def validate_opt_def validate_def)
  have "updateConfig fuel ?nc ?r = Threw (Invalid ''speed'') (stop ?r)"
    by (simp add: updateConfig_def updateConfig_k_invalid[OF v])
  moreover have "\<not> isRunning (stop ?r)" "animationId (stop ?r) = None"
      "requested_frames (browser (stop ?r)) = []"
      "config (stop ?r) = config (test_instance 3)" "stars (stop ?r) = stars (test_instance 3)"
      "starCount (stop ?r) = 3"
    by (simp_all add: stop_def Let_def cancelAnimationFrame_def test_instance_def)
  ultimately show ?thesis using v by simp
qed

section \<open>Changing the number of stars\<close>

lemma freshStars_0: "freshStars cfg r c 0 = []"
  by (simp add: freshStars_def)

lemma freshStars_Suc:
  "freshStars cfg r c (Suc n) =
     sampleStar cfg (r c) (r (c + 1)) (r (c + 2)) (r (c + 3)) (r (c + 4)) # freshStars cfg r (c + 5) n"
proof -
  have "[0..<Suc n] = 0 # map Suc [0..<n]"
    by (simp add: upt_conv_Cons map_Suc_upt del: upt_Suc)
  then show ?thesis
    by (simp add: freshStars_def comp_def algebra_simps del: upt_Suc)
qed

lemma pushStars_fresh:
  "pushStars n cfg ss b =
     (ss @ freshStars cfg (random_draws b) (random_count b) n,
      b\<lparr>random_count := random_count b + 5 * n\<rparr>)"
proof (induction n arbitrary: ss b)
  case 0
  show ?case by (simp add: freshStars_def)
next
  case (Suc n)
  show ?case
    by (simp add: createStar_def Let_def Suc.IH freshStars_Suc)
qed

lemma stop_random [simp]:
  "random_draws (browser (stop s)) = random_draws (browser s)"
  "random_count (browser (stop s)) = random_count (browser s)"
  by (simp_all add: stop_def Let_def cancelAnimationFrame_def split: option.splits)

text \<open>The star array after \<open>updateConfig\<close> has set the count from a merged configuration.\<close>

lemma recountStars_stars:
  "stars (recountStars s) =
     (let n = (case cfg_starCount (config s) of
                 Auto \<Rightarrow> detectDeviceCapability (config s) (browser s)
               | Count n \<Rightarrow> n)
      in if starCount s < n
         then stars s @ freshStars (config s) (random_draws (browser s)) (random_count (browser s))
                          (nat (n - starCount s))
         else if n < starCount s then splice_from n (stars s)
         else stars s)"
  by (simp add: recountStars_def Let_def pushStars_fresh)

text \<open>
  Claim C5. Setting the count to \<open>n\<close> (the block of \<open>updateConfig\<close> that adds and
  removes stars, applied to the configuration with \<open>starCount = n\<close>) appends freshly
  sampled stars to the array when \<open>n\<close> is larger than the count, and keeps the first
  \<open>n\<close> stars when it is smaller; the stars kept are not touched. On a stopped
  instance of 200 stars, \<open>updateConfig\<close> to 250 stars and then to 200 stars gives back
  exactly the 200 stars. (On a running instance \<open>updateConfig\<close> ends with a restart,
  whose frame moves the stars like any frame.)
\<close>

theorem resize_keeps_stars:
  "(starCount s \<le> n \<longrightarrow>
      stars (recountStars (s\<lparr>config := (config s)\<lparr>cfg_starCount := Count n\<rparr>\<rparr>))
        = stars s @ freshStars ((config s)\<lparr>cfg_starCount := Count n\<rparr>)
                      (random_draws (browser s)) (random_count (browser s))
                      (nat (n - starCount s)))
   \<and> (0 \<le> n \<and> n < starCount s \<longrightarrow>
      stars (recountStars (s\<lparr>config := (config s)\<lparr>cfg_starCount := Count n\<rparr>\<rparr>))
        = take (nat n) (stars s))
   \<and> (\<not> isRunning s \<and> starCount s = 200 \<and> length (stars s) = 200 \<longrightarrow>
        (\<exists>s1 s2. updateConfig_k k (no_options\<lparr>new_starCount := Some (Count 250)\<rparr>) s = Done s1
           \<and> starCount s1 = 250 \<and> length (stars s1) = 250 \<and> take 200 (stars s1) = stars s
           \<and> updateConfig_k k (no_options\<lparr>new_starCount := Some (Count 200)\<rparr>) s1 = Done s2
           \<and> starCount s2 = 200 \<and> stars s2 = stars s))"
proof (intro conjI impI)
  assume "starCount s \<le> n"
  then show "stars (recountStars (s\<lparr>config := (config s)\<lparr>cfg_starCount := Count n\<rparr>\<rparr>))
        = stars s @ freshStars ((config s)\<lparr>cfg_starCount := Count n\<rparr>)
                      (random_draws (browser s)) (random_count (browser s))
                      (nat (n - starCount s))"
    by (auto simp add: recountStars_stars freshStars_def)
next
  assume "0 \<le> n \<and> n < starCount s"
  then show "stars (recountStars (s\<lparr>config := (config s)\<lparr>cfg_starCount := Count n\<rparr>\<rparr>))
        = take (nat n) (stars s)"
    by (simp add: recountStars_stars splice_from_def)
next
  assume h: "\<not> isRunning s \<and> starCount s = 200 \<and> length (stars s) = 200"
  define s1 where "s1 = recountStars (s\<lparr>config := (config s)\<lparr>cfg_starCount := Count 250\<rparr>\<rparr>)"
  define s2 where "s2 = recountStars (s1\<lparr>config := (config s1)\<lparr>cfg_starCount := Count 200\<rparr>\<rparr>)"
  have u1: "updateConfig_k k (no_options\<lparr>new_starCount := Some (Count 250)\<rparr>) s = Done s1"
    using h by (simp add: updateConfig_k_count Let_def s1_def)
  have r1: "\<not> isRunning s1" "starCount s1 = 250"
    using h by (simp_all add: s1_def recountStars_Count)
  have st1: "stars s1 = stars s @ freshStars ((config s)\<lparr>cfg_starCount := Count 250\<rparr>)
                      (random_draws (browser s)) (random_count (browser s)) 50"
    using h by (simp add: s1_def recountStars_stars)
  have l1: "length (stars s1) = 250" "take 200 (stars s1) = stars s"
    using h by (simp_all add: st1 freshStars_def)
  have u2: "updateConfig_k k (no_options\<lparr>new_starCount := Some (Count 200)\<rparr>) s1 = Done s2"
    using r1 by (simp add: updateConfig_k_count Let_def s2_def)
  have st2: "stars s2 = stars s" "starCount s2 = 200"
    using r1 l1 by (simp_all add: s2_def recountStars_stars splice_from_def recountStars_Count)
  from u1 r1 l1 u2 st2 show "\<exists>s1 s2.
       updateConfig_k k (no_options\<lparr>new_starCount := Some (Count 250)\<rparr>) s = Done s1
           \<and> starCount s1 = 250 \<and> length (stars s1) = 250 \<and> take 200 (stars s1) = stars s
           \<and> updateConfig_k k (no_options\<lparr>new_starCount := Some (Count 200)\<rparr>) s1 = Done s2
           \<and> starCount s2 = 200 \<and> stars s2 = stars s"
    by blast
qed

text \<open>The theorem at a stopped instance of 200 stars: to 250 stars, to 150 stars, and to 250 and back.\<close>

theorem resize_keeps_stars_witness:
  "starCount (test_instance 200) \<le> 250
   \<and> stars (recountStars ((test_instance 200)
               \<lparr>config := (config (test_instance 200))\<lparr>cfg_starCount := Count 250\<rparr>\<rparr>))
        = stars (test_instance 200)
          @ freshStars ((config (test_instance 200))\<lparr>cfg_starCount := Count 250\<rparr>)
              (random_draws (browser (test_instance 200)))
              (random_count (browser (test_instance 200)))
              (nat (250 - starCount (test_instance 200)))
   \<and> (0::int) \<le> 150 \<and> 150 < starCount (test_instance 200)
   \<and> stars (recountStars ((test_instance 200)
               \<lparr>config := (config (test_instance 200))\<lparr>cfg_starCount := Count 150\<rparr>\<rparr>))
        = take (nat 150) (stars (test_instance 200))
   \<and> \<not> isRunning (test_instance 200)
   \<and> starCount (test_instance 200) = 200
   \<and> length (stars (test_instance 200)) = 200
   \<and> (\<exists>s1 s2. updateConfig_k Done (no_options\<lparr>new_starCount := Some (Count 250)\<rparr>)
                  (test_instance 200) = Done s1
           \<and> starCount s1 = 250 \<and> length (stars s1) = 250
           \<and> take 200 (stars s1) = stars (test_instance 200)
           \<and> updateConfig_k Done (no_options\<lparr>new_starCount := Some (Count 200)\<rparr>) s1 = Done s2
           \<and> starCount s2 = 200 \<and> stars s2 = stars (test_instance 200))"
proof -
  have h: "starCount (test_instance 200) \<le> 250" "(0::int) \<le> 150"
      "150 < starCount (test_instance 200)" "\<not> isRunning (test_instance 200)"
      "starCount (test_instance 200) = 200" "length (stars (test_instance 200)) = 200"
    by (simp_all add: test_instance_def)
  from resize_keeps_stars[of "test_instance 200" 250 Done]
       resize_keeps_stars[of "test_instance 200" 150 Done] h
  show ?thesis by blast
qed

section \<open>An update of the count together with the style\<close>

lemma splice_from_take: "\<exists>m. splice_from n xs = take m xs"
  by (auto simp add: splice_from_def)

text \<open>
  Claim C10. An update that passes the validation and defines \<open>starCount\<close> (whatever
  else it defines, \<open>starColors\<close> and \<open>starSize\<close> included) leaves an array that is the
  old array followed by fresh stars, sampled with the merged configuration, or a
  prefix of the old array: every star kept is the star it was, with its size and its
  hue. The state \<open>t\<close> is the one \<open>updateConfig\<close> returns on a stopped instance, and on
  a running one the state it restarts from.
\<close>

theorem update_count_keeps_style:
  assumes valid: "validateConfig nc = None"
      and count: "new_starCount nc \<noteq> None"
  shows "\<exists>t. updateConfig_k k nc s = (if isRunning s then k (t\<lparr>isRunning := True\<rparr>) else Done t)
           \<and> config t = mergeDeep (config s) nc
           \<and> ((\<exists>m. stars t = stars s @ freshStars (mergeDeep (config s) nc)
                                        (random_draws (browser s)) (random_count (browser s)) m)
              \<or> (\<exists>m. stars t = take m (stars s)))
           \<and> take (min (length (stars s)) (length (stars t))) (stars t)
               = take (min (length (stars s)) (length (stars t))) (stars s)
           \<and> map baseSize (take (min (length (stars s)) (length (stars t))) (stars t))
               = map baseSize (take (min (length (stars s)) (length (stars t))) (stars s))
           \<and> map star_hue (take (min (length (stars s)) (length (stars t))) (stars t))
               = map star_hue (take (min (length (stars s)) (length (stars t))) (stars s))"
proof -
  define s1 where "s1 = (if isRunning s then stop s else s)"
  define s2 where "s2 = s1\<lparr>config := mergeDeep (config s1) nc\<rparr>"
  define s3 where "s3 = recountStars s2"
  define t where "t = (if new_background nc \<noteq> None then s3\<lparr>backgroundGradient := False\<rparr> else s3)"
  define n where "n = (case cfg_starCount (config s2) of
                         Auto \<Rightarrow> detectDeviceCapability (config s2) (browser s2)
                       | Count n \<Rightarrow> n)"
  have run: "updateConfig_k k nc s = (if isRunning s then k (t\<lparr>isRunning := True\<rparr>) else Done t)"
    using count
    by (simp add: updateConfig_k_valid[OF valid] Let_def t_def s3_def s2_def s1_def applyStars_def)
  have s2: "config s2 = mergeDeep (config s) nc" "stars s2 = stars s"
      "random_draws (browser s2) = random_draws (browser s)"
      "random_count (browser s2) = random_count (browser s)"
    by (simp_all add: s2_def s1_def)
  have cfg: "config t = mergeDeep (config s) nc"
    by (simp add: t_def s3_def s2)
  have st: "stars t = stars s3" by (simp add: t_def)
  obtain m where m: "splice_from n (stars s) = take m (stars s)"
    using splice_from_take by blast
  have "stars s3 =
     (if starCount s2 < n
      then stars s2 @ freshStars (config s2) (random_draws (browser s2)) (random_count (browser s2))
                          (nat (n - starCount s2))
      else if n < starCount s2 then splice_from n (stars s2)
      else stars s2)"
    unfolding s3_def n_def recountStars_stars Let_def ..
  then have "stars s3 = stars s @ freshStars (mergeDeep (config s) nc)
                 (random_draws (browser s)) (random_count (browser s)) (nat (n - starCount s2))
          \<or> stars s3 = take m (stars s) \<or> stars s3 = take (length (stars s)) (stars s)"
    unfolding s2 m by (simp split: if_splits)
  then have shape: "(\<exists>m. stars t = stars s @ freshStars (mergeDeep (config s) nc)
                                        (random_draws (browser s)) (random_count (browser s)) m)
              \<or> (\<exists>m. stars t = take m (stars s))"
    unfolding st by blast
  have kept: "take (min (length (stars s)) (length (stars t))) (stars t)
               = take (min (length (stars s)) (length (stars t))) (stars s)"
    using shape by (auto simp add: min_def)
  from run cfg shape kept show ?thesis by (intro exI[of _ t]) simp
qed

text \<open>
  The theorem at a stopped instance of three stars of hue 200 and size 1, updated to
  five stars of hue 0 and sizes from 3 to 4: the three stars are kept as they are,
  and only the two new stars have the new hue and a new size.
\<close>

theorem update_count_keeps_style_witness:
  "validateConfig
     (no_options\<lparr>new_starCount := Some (Count 5),
                 new_starColors := Some \<lparr>new_hue = Some (Hue 0), new_saturation = None,
                                         new_lightness = None\<rparr>,
                 new_starSize := Some \<lparr>new_size_min = Some 3, new_size_max = Some 4\<rparr>\<rparr>) = None
   \<and> new_starCount
     (no_options\<lparr>new_starCount := Some (Count 5),
                 new_starColors := Some \<lparr>new_hue = Some (Hue 0), new_saturation = None,
                                         new_lightness = None\<rparr>,
                 new_starSize := Some \<lparr>new_size_min = Some 3, new_size_max = Some 4\<rparr>\<rparr>) \<noteq> None
   \<and> (\<exists>t. updateConfig_k Done
             (no_options\<lparr>new_starCount := Some (Count 5),
                 new_starColors := Some \<lparr>new_hue = Some (Hue 0), new_saturation = None,
                                         new_lightness = None\<rparr>,
                 new_starSize := Some \<lparr>new_size_min = Some 3, new_size_max = Some 4\<rparr>\<rparr>)
             (test_instance 3) = Done t
         \<and> stars t = [test_star, test_star, test_star,
                       \<lparr>star_x = - 1000, star_y = - 500, star_z = 1000, baseSize = 15 / 4, star_hue = 0\<rparr>,
                       \<lparr>star_x = - 500, star_y = 0, star_z = 1500, baseSize = 3, star_hue = 0\<rparr>]
         \<and> map star_hue (take 3 (stars t)) = map star_hue (take 3 (stars (test_instance 3)))
         \<and> map baseSize (take 3 (stars t)) = map baseSize (take 3 (stars (test_instance 3))))"
proof -
  let ?nc = "no_options\<lparr>new_starCount := Some (Count 5),
                 new_starColors := Some \<lparr>new_hue = Some (Hue 0), new_saturation = None,
                                         new_lightness = None\<rparr>,
                 new_starSize := Some \<lparr>new_size_min = Some 3, new_size_max = Some 4\<rparr>\<rparr>"
  have v: "validateConfig ?nc = None"
    by (simp add: validateConfig_def no_options_def validate_opt_def validate_def
        validateStarSize_def validateStarColors_def)
  have c: "new_starCount ?nc \<noteq> None" by simp
  have r: "\<not> isRunning (test_instance 3)" by (simp add: test_instance_def)
  from update_count_keeps_style[OF v c, of Done "test_instance 3"]
  obtain t where t0: "updateConfig_k Done ?nc (test_instance 3)
         = (if isRunning (test_instance 3) then Done (t\<lparr>isRunning := True\<rparr>) else Done t)"
    and sizes: "map baseSize (take (min (length (stars (test_instance 3))) (length (stars t))) (stars t))
         = map baseSize (take (min (length (stars (test_instance 3))) (length (stars t)))
             (stars (test_instance 3)))"
    and hues: "map star_hue (take (min (length (stars (test_instance 3))) (length (stars t))) (stars t))
         = map star_hue (take (min (length (stars (test_instance 3))) (length (stars t)))
             (stars (test_instance 3)))"
    by blast
  have t: "updateConfig_k Done ?nc (test_instance 3) = Done t"
    using t0 r by simp
  have "updateConfig_k Done ?nc (test_instance 3)
      = Done (recountStars ((test_instance 3)\<lparr>config := mergeDeep defaults ?nc\<rparr>))"
    using r by (simp add: updateConfig_k_valid[OF v] Let_def applyStars_def)
       (simp add: test_instance_def no_options_def)
  with t have teq: "t = recountStars ((test_instance 3)\<lparr>config := mergeDeep defaults ?nc\<rparr>)"
    by simp
  have st: "stars t = [test_star, test_star, test_star,
                       \<lparr>star_x = - 1000, star_y = - 500, star_z = 1000, baseSize = 15 / 4, star_hue = 0\<rparr>,
                       \<lparr>star_x = - 500, star_y = 0, star_z = 1500, baseSize = 3, star_hue = 0\<rparr>]"
  proof -
    have fresh: "freshStars (mergeDeep defaults ?nc) (random_draws test_browser) 0 2
       = [\<lparr>star_x = - 1000, star_y = - 500, star_z = 1000, baseSize = 15 / 4, star_hue = 0\<rparr>,
          \<lparr>star_x = - 500, star_y = 0, star_z = 1500, baseSize = 3, star_hue = 0\<rparr>]"
      by (simp add: mergeDeep_def defaults_def no_options_def override_def numeral_2_eq_2
          freshStars_Suc freshStars_0 sampleStar_def test_browser_def Let_def)
    have n: "cfg_starCount (mergeDeep defaults ?nc) = Count 5"
      by (simp add: mergeDeep_def override_def)
    have b: "random_count test_browser = 0" by (simp add: test_browser_def)
    have "stars (recountStars ((test_instance 3)\<lparr>config := mergeDeep defaults ?nc\<rparr>))
        = replicate 3 test_star
          @ freshStars (mergeDeep defaults ?nc) (random_draws test_browser) 0 2"
      unfolding recountStars_stars by (simp add: test_instance_def n b)
    then show ?thesis unfolding teq fresh by (simp add: numeral_3_eq_3)
  qed
  have l: "min (length (stars (test_instance 3))) (length (stars t)) = 3"
    by (simp add: st test_instance_def)
  have "\<exists>t. updateConfig_k Done ?nc (test_instance 3) = Done t
         \<and> stars t = [test_star, test_star, test_star,
                       \<lparr>star_x = - 1000, star_y = - 500, star_z = 1000, baseSize = 15 / 4, star_hue = 0\<rparr>,
                       \<lparr>star_x = - 500, star_y = 0, star_z = 1500, baseSize = 3, star_hue = 0\<rparr>]
         \<and> map star_hue (take 3 (stars t)) = map star_hue (take 3 (stars (test_instance 3)))
         \<and> map baseSize (take 3 (stars t)) = map baseSize (take 3 (stars (test_instance 3)))"
    using t st hues[unfolded l] sizes[unfolded l] by (intro exI[of _ t] conjI)
  with v c show ?thesis by (intro conjI)
qed

section \<open>Moving the stars\<close>

lemma createStar_eq:
  "createStar cfg b =
     (sampleStar cfg (random_draws b (random_count b)) (random_draws b (random_count b + 1))
        (random_draws b (random_count b + 2)) (random_draws b (random_count b + 3))
        (random_draws b (random_count b + 4)),
      b\<lparr>random_count := random_count b + 5\<rparr>)"
  by (simp add: createStar_def Let_def)

lemma sampleStar_position:
  assumes "0 \<le> r1" "r1 < 1" "0 \<le> r2" "r2 < 1" "0 \<le> r3" "r3 < 1"
  shows "- 1000 \<le> star_x (sampleStar cfg r1 r2 r3 r4 r5) \<and> star_x (sampleStar cfg r1 r2 r3 r4 r5) < 1000
       \<and> - 1000 \<le> star_y (sampleStar cfg r1 r2 r3 r4 r5) \<and> star_y (sampleStar cfg r1 r2 r3 r4 r5) < 1000
       \<and> 0 \<le> star_z (sampleStar cfg r1 r2 r3 r4 r5) \<and> star_z (sampleStar cfg r1 r2 r3 r4 r5) < 2000"
  using assms by (simp add: sampleStar_def Let_def)

lemma advanced_above: "- 200 < star_z st' " if "advanced cfg r st st'"
  using that by (auto simp add: advanced_def split: if_splits)

lemma updateStars_advanced:
  assumes rnd: "\<forall>i. 0 \<le> r i \<and> r i < 1"
  shows "random_draws b = r \<Longrightarrow>
         \<exists>ss' b'. updateStars cfg ss b = (ss', b') \<and> random_draws b' = r
           \<and> list_all2 (advanced cfg r) ss ss'"
proof (induction ss arbitrary: b)
  case Nil
  then show ?case by simp
next
  case (Cons st rest)
  show ?case
  proof (cases "star_z st - speed cfg \<le> - 200")
    case True
    let ?b1 = "b\<lparr>random_count := random_count b + 5\<rparr>"
    let ?new = "sampleStar cfg (r (random_count b)) (r (random_count b + 1))
        (r (random_count b + 2)) (r (random_count b + 3)) (r (random_count b + 4))"
    have "random_draws ?b1 = r" using Cons.prems by simp
    from Cons.IH[OF this] obtain rest' b' where rest: "updateStars cfg rest ?b1 = (rest', b')"
        "random_draws b' = r" "list_all2 (advanced cfg r) rest rest'"
      by blast
    have run: "updateStars cfg (st # rest) b = (?new # rest', b')"
      using True rest(1) Cons.prems by (simp add: createStar_eq)
    have pos: "- 1000 \<le> star_x ?new \<and> star_x ?new < 1000
       \<and> - 1000 \<le> star_y ?new \<and> star_y ?new < 1000
       \<and> 0 \<le> star_z ?new \<and> star_z ?new < 2000"
      using rnd by (intro sampleStar_position) simp_all
    have "advanced cfg r st ?new"
      unfolding advanced_def using True pos by auto
    with run rest(2,3) show ?thesis by simp
  next
    case False
    from Cons.IH[OF Cons.prems] obtain rest' b' where rest: "updateStars cfg rest b = (rest', b')"
        "random_draws b' = r" "list_all2 (advanced cfg r) rest rest'"
      by blast
    have "updateStars cfg (st # rest) b = (st\<lparr>star_z := star_z st - speed cfg\<rparr> # rest', b')"
      using False rest(1) by simp
    moreover have "advanced cfg r st (st\<lparr>star_z := star_z st - speed cfg\<rparr>)"
      using False by (simp add: advanced_def)
    ultimately show ?thesis using rest(2,3) by simp
  qed
qed

text \<open>
  Claim C6. When \<open>Math.random\<close> draws from \<open>[0, 1)\<close>, a frame's \<open>_update\<close> keeps the
  number of stars and turns every star into its advanced star: moved by \<open>speed\<close>, or,
  if that brings it to \<open>z \<le> -200\<close>, replaced in all five fields by a freshly
  sampled star with \<open>z\<close> in \<open>[0, 2000)\<close> and \<open>x\<close>, \<open>y\<close> in \<open>[-1000, 1000)\<close>. So every
  star has \<open>z > -200\<close> after the step.
\<close>

theorem update_respawns:
  assumes rnd: "\<forall>i. 0 \<le> random_draws (browser s) i \<and> random_draws (browser s) i < 1"
  shows "list_all2 (advanced (config s) (random_draws (browser s))) (stars s) (stars (update s))
       \<and> length (stars (update s)) = length (stars s)
       \<and> list_all (\<lambda>st'. - 200 < star_z st') (stars (update s))
       \<and> random_draws (browser (update s)) = random_draws (browser s)"
proof -
  from updateStars_advanced[OF rnd refl, of "config s" "stars s"]
  obtain ss' b' where u: "updateStars (config s) (stars s) (browser s) = (ss', b')"
      "random_draws b' = random_draws (browser s)"
      "list_all2 (advanced (config s) (random_draws (browser s))) (stars s) ss'"
    by blast
  have st: "stars (update s) = ss'" "browser (update s) = b'"
    using u(1) by (simp_all add: update_def)
  have "list_all (\<lambda>st'. - 200 < star_z st') ss'"
    unfolding list_all_length
  proof (intro allI impI)
    fix i assume "i < length ss'"
    with u(3) have "advanced (config s) (random_draws (browser s)) (stars s ! i) (ss' ! i)"
      by (simp add: list_all2_conv_all_nth)
    then show "- 200 < star_z (ss' ! i)" by (rule advanced_above)
  qed
  with u(2,3) show ?thesis
    unfolding st by (simp add: list_all2_lengthD)
qed

text \<open>
  The theorem at an instance of two stars, the first at \<open>z = -199.5\<close>: with the
  default speed 0.6 the first star is replaced, the second one moves.
\<close>

theorem update_respawns_witness:
  "(\<forall>i. 0 \<le> random_draws
               (browser ((test_instance 2)\<lparr>stars := [test_star\<lparr>star_z := - 199.5\<rparr>, test_star]\<rparr>)) i
         \<and> random_draws
               (browser ((test_instance 2)\<lparr>stars := [test_star\<lparr>star_z := - 199.5\<rparr>, test_star]\<rparr>)) i
             < 1)
   \<and> stars (update ((test_instance 2)\<lparr>stars := [test_star\<lparr>star_z := - 199.5\<rparr>, test_star]\<rparr>))
       = [\<lparr>star_x = - 1000, star_y = - 500, star_z = 1000, baseSize = 13 / 8, star_hue = 180\<rparr>,
          test_star\<lparr>star_z := 4997 / 5\<rparr>]
   \<and> list_all2
         (advanced (config ((test_instance 2)\<lparr>stars := [test_star\<lparr>star_z := - 199.5\<rparr>, test_star]\<rparr>))
            (random_draws
               (browser ((test_instance 2)\<lparr>stars := [test_star\<lparr>star_z := - 199.5\<rparr>, test_star]\<rparr>))))
         (stars ((test_instance 2)\<lparr>stars := [test_star\<lparr>star_z := - 199.5\<rparr>, test_star]\<rparr>))
         (stars (update ((test_instance 2)\<lparr>stars := [test_star\<lparr>star_z := - 199.5\<rparr>, test_star]\<rparr>)))
   \<and> list_all (\<lambda>st'. - 200 < star_z st')
         (stars (update ((test_instance 2)\<lparr>stars := [test_star\<lparr>star_z := - 199.5\<rparr>, test_star]\<rparr>)))"
proof -
  let ?s = "(test_instance 2)\<lparr>stars := [test_star\<lparr>star_z := - 199.5\<rparr>, test_star]\<rparr>"
  have rnd: "\<forall>i. 0 \<le> random_draws (browser ?s) i \<and> random_draws (browser ?s) i < 1"
    by (simp add: test_instance_def test_browser_def)
  have st: "stars (update ?s)
       = [\<lparr>star_x = - 1000, star_y = - 500, star_z = 1000, baseSize = 13 / 8, star_hue = 180\<rparr>,
          test_star\<lparr>star_z := 4997 / 5\<rparr>]"
    by (simp add: update_def test_instance_def test_browser_def test_star_def defaults_def
        createStar_eq sampleStar_def Let_def)
  from update_respawns[OF rnd] rnd st show ?thesis by (intro conjI) simp_all
qed

section \<open>Projection and rendering: properties\<close>

lemma project_finite:
  assumes "focalLength (config s) + z \<noteq> 0"
  shows "project s x y z =
     \<lparr>proj_x = Val (centerX s + x * (focalLength (config s) / (focalLength (config s) + z))),
      proj_y = Val (centerY s + y * (focalLength (config s) / (focalLength (config s) + z))),
      proj_scale = Val (focalLength (config s) / (focalLength (config s) + z))\<rparr>"
  using assms by (simp add: project_def Let_def)

lemma project_scale_not_NaN:
  assumes "0 < focalLength (config s)"
  shows "proj_scale (project s x y z) \<noteq> NaN"
  using assms by (simp add: project_def Let_def signed_inf_def)

lemma not_le_zero_iff_gt:
  fixes v :: jsnum
  shows "v \<noteq> NaN \<Longrightarrow> (\<not> js_le v (Val 0)) = js_gt v (Val 0)"
  by (cases v) (auto simp add: js_gt_def)

lemma drawStar_iff:
  assumes "0 < focalLength (config s)"
  shows "drawStar s st =
     (if js_gt (proj_scale (project s (star_x st) (star_y st) (star_z st))) (Val 0)
      then Some \<lparr>disc_x = proj_x (project s (star_x st) (star_y st) (star_z st)),
                 disc_y = proj_y (project s (star_x st) (star_y st) (star_z st)),
                 radius = js_mul (Val (baseSize st))
                            (proj_scale (project s (star_x st) (star_y st) (star_z st))),
                 fill_hue = star_hue st,
                 fill_saturation = saturation (starColors (config s)),
                 fill_lightness = lightness (starColors (config s)),
                 alpha = js_min (Val 1)
                           (js_mul (proj_scale (project s (star_x st) (star_y st) (star_z st)))
                              (Val 0.7))\<rparr>
      else None)"
  using not_le_zero_iff_gt[OF project_scale_not_NaN[OF assms, of "star_x st" "star_y st" "star_z st"]]
  by (auto simp add: drawStar_def Let_def)

lemma drawStars_map_filter:
  "drawStars s ss = map (\<lambda>st. the (drawStar s st)) (filter (\<lambda>st. drawStar s st \<noteq> None) ss)"
  by (induction ss) (auto split: option.splits)

lemma drawStars_same:
  assumes "config s' = config s" "centerX s' = centerX s" "centerY s' = centerY s"
  shows "drawStars s' ss = drawStars s ss"
proof -
  have "drawStar s' st = drawStar s st" for st
    using assms by (simp add: drawStar_def project_def Let_def)
  then show ?thesis by (induction ss) (simp_all split: option.splits)
qed

text \<open>
  Claim C8. For a positive focal length (the validation keeps it in \<open>[50, 1000]\<close>):
  the projection of a point with \<open>focalLength + z \<noteq> 0\<close> has
  \<open>scale = focalLength / (focalLength + z)\<close> and the screen point
  \<open>(centerX + x * scale, centerY + y * scale)\<close>; it is a function of the instance
  that returns only this value. \<open>_render\<close> leaves the stars and the configuration as
  they are and draws, in the order of the array, one disc for each star whose scale
  is greater than 0 and none for the others: at the projected point, of radius
  \<open>baseSize * scale\<close>, with the star's hue and the alpha \<open>min(1, scale * 0.7)\<close>.
\<close>

theorem projection_and_render:
  assumes focal: "0 < focalLength (config s)"
  shows "(focalLength (config s) + z \<noteq> 0 \<longrightarrow>
           project s x y z =
             \<lparr>proj_x = Val (centerX s + x * (focalLength (config s) / (focalLength (config s) + z))),
              proj_y = Val (centerY s + y * (focalLength (config s) / (focalLength (config s) + z))),
              proj_scale = Val (focalLength (config s) / (focalLength (config s) + z))\<rparr>)
       \<and> stars (render s) = stars s \<and> config (render s) = config s
       \<and> centerX (render s) = centerX s \<and> centerY (render s) = centerY s
       \<and> canvas (render s) =
           map (\<lambda>st. \<lparr>disc_x = proj_x (project s (star_x st) (star_y st) (star_z st)),
                      disc_y = proj_y (project s (star_x st) (star_y st) (star_z st)),
                      radius = js_mul (Val (baseSize st))
                                 (proj_scale (project s (star_x st) (star_y st) (star_z st))),
                      fill_hue = star_hue st,
                      fill_saturation = saturation (starColors (config s)),
                      fill_lightness = lightness (starColors (config s)),
                      alpha = js_min (Val 1)
                                (js_mul (proj_scale (project s (star_x st) (star_y st) (star_z st)))
                                   (Val 0.7))\<rparr>)
             (filter (\<lambda>st. js_gt (proj_scale (project s (star_x st) (star_y st) (star_z st))) (Val 0))
                (stars s))
       \<and> (focalLength (config s) + star_z st \<noteq> 0 \<longrightarrow>
            drawStar s st =
              (if 0 < focalLength (config s) / (focalLength (config s) + star_z st)
               then Some \<lparr>disc_x = Val (centerX s + star_x st
                                        * (focalLength (config s) / (focalLength (config s) + star_z st))),
                          disc_y = Val (centerY s + star_y st
                                        * (focalLength (config s) / (focalLength (config s) + star_z st))),
                          radius = Val (baseSize st
                                        * (focalLength (config s) / (focalLength (config s) + star_z st))),
                          fill_hue = star_hue st,
                          fill_saturation = saturation (starColors (config s)),
                          fill_lightness = lightness (starColors (config s)),
                          alpha = Val (min 1 (focalLength (config s)
                                              / (focalLength (config s) + star_z st) * 0.7))\<rparr>
               else None))"
proof -
  have "drawStars (s\<lparr>backgroundGradient := True\<rparr>) (stars s) = drawStars s (stars s)"
    by (rule drawStars_same) simp_all
  then have c: "canvas (render s) = drawStars s (stars s)"
    by (simp add: render_def Let_def)
  have filt: "filter (\<lambda>st. drawStar s st \<noteq> None) ss
      = filter (\<lambda>st. js_gt (proj_scale (project s (star_x st) (star_y st) (star_z st))) (Val 0)) ss" for ss
    by (rule filter_cong) (simp_all add: drawStar_iff[OF focal])
  have "drawStars s (stars s) =
      map (\<lambda>st. the (drawStar s st))
        (filter (\<lambda>st. js_gt (proj_scale (project s (star_x st) (star_y st) (star_z st))) (Val 0))
           (stars s))"
    unfolding drawStars_map_filter filt ..
  also have "\<dots> = map (\<lambda>st. \<lparr>disc_x = proj_x (project s (star_x st) (star_y st) (star_z st)),
                      disc_y = proj_y (project s (star_x st) (star_y st) (star_z st)),
                      radius = js_mul (Val (baseSize st))
                                 (proj_scale (project s (star_x st) (star_y st) (star_z st))),
                      fill_hue = star_hue st,
                      fill_saturation = saturation (starColors (config s)),
                      fill_lightness = lightness (starColors (config s)),
                      alpha = js_min (Val 1)
                                (js_mul (proj_scale (project s (star_x st) (star_y st) (star_z st)))
                                   (Val 0.7))\<rparr>)
             (filter (\<lambda>st. js_gt (proj_scale (project s (star_x st) (star_y st) (star_z st))) (Val 0))
                (stars s))"
    by (rule map_cong) (simp_all add: drawStar_iff[OF focal])
  finally have canvas: "canvas (render s) = \<dots>" using c by simp
  have keep: "stars (render s) = stars s" "config (render s) = config s"
      "centerX (render s) = centerX s" "centerY (render s) = centerY s"
    by (simp_all add: render_def Let_def)
  have fin: "drawStar s st =
              (if 0 < focalLength (config s) / (focalLength (config s) + star_z st)
               then Some \<lparr>disc_x = Val (centerX s + star_x st
                                        * (focalLength (config s) / (focalLength (config s) + star_z st))),
                          disc_y = Val (centerY s + star_y st
                                        * (focalLength (config s) / (focalLength (config s) + star_z st))),
                          radius = Val (baseSize st
                                        * (focalLength (config s) / (focalLength (config s) + star_z st))),
                          fill_hue = star_hue st,
                          fill_saturation = saturation (starColors (config s)),
                          fill_lightness = lightness (starColors (config s)),
                          alpha = Val (min 1 (focalLength (config s)
                                              / (focalLength (config s) + star_z st) * 0.7))\<rparr>
               else None)"
    if "focalLength (config s) + star_z st \<noteq> 0"
    unfolding drawStar_def project_finite[OF that] Let_def
    by (simp add: not_le)
  show ?thesis
  proof (intro conjI impI)
    show "canvas (render s) =
           map (\<lambda>st. \<lparr>disc_x = proj_x (project s (star_x st) (star_y st) (star_z st)),
                      disc_y = proj_y (project s (star_x st) (star_y st) (star_z st)),
                      radius = js_mul (Val (baseSize st))
                                 (proj_scale (project s (star_x st) (star_y st) (star_z st))),
                      fill_hue = star_hue st,
                      fill_saturation = saturation (starColors (config s)),
                      fill_lightness = lightness (starColors (config s)),
                      alpha = js_min (Val 1)
                                (js_mul (proj_scale (project s (star_x st) (star_y st) (star_z st)))
                                   (Val 0.7))\<rparr>)
             (filter (\<lambda>st. js_gt (proj_scale (project s (star_x st) (star_y st) (star_z st))) (Val 0))
                (stars s))"
      by (rule canvas)
  qed (fact keep | erule project_finite | erule fin)+
qed

text \<open>
  The theorem at an instance of two stars, with the default focal length 300 and
  the centre (400, 300): the star at \<open>z = 1000\<close> has scale 3/13 and is drawn, the
  star at \<open>z = -400\<close> has scale -3 and is not.
\<close>

theorem projection_and_render_witness:
  "0 < focalLength (config ((test_instance 2)\<lparr>stars := [test_star, test_star\<lparr>star_z := - 400\<rparr>]\<rparr>))
   \<and> focalLength (config ((test_instance 2)\<lparr>stars := [test_star, test_star\<lparr>star_z := - 400\<rparr>]\<rparr>))
       + 1000 \<noteq> 0
   \<and> project ((test_instance 2)\<lparr>stars := [test_star, test_star\<lparr>star_z := - 400\<rparr>]\<rparr>) 100 (- 50) 1000
       = \<lparr>proj_x = Val (5500 / 13), proj_y = Val (3750 / 13), proj_scale = Val (3 / 13)\<rparr>
   \<and> proj_scale (project ((test_instance 2)\<lparr>stars := [test_star, test_star\<lparr>star_z := - 400\<rparr>]\<rparr>)
                    100 (- 50) (- 400)) = Val (- 3)
   \<and> canvas (render ((test_instance 2)\<lparr>stars := [test_star, test_star\<lparr>star_z := - 400\<rparr>]\<rparr>))
       = [\<lparr>disc_x = Val (5500 / 13), disc_y = Val (3750 / 13), radius = Val (3 / 13),
           fill_hue = 200, fill_saturation = 70, fill_lightness = 90, alpha = Val (21 / 130)\<rparr>]"
proof -
  define s where "s = (test_instance 2)\<lparr>stars := [test_star, test_star\<lparr>star_z := - 400\<rparr>]\<rparr>"
  have f: "focalLength (config s) = 300" "centerX s = 400" "centerY s = 300"
      "saturation (starColors (config s)) = 70" "lightness (starColors (config s)) = 90"
      "stars s = [test_star, test_star\<lparr>star_z := - 400\<rparr>]"
    by (simp_all add: s_def test_instance_def defaults_def)
  have h1: "0 < focalLength (config s)" by (simp add: f)
  have h2: "focalLength (config s) + 1000 \<noteq> 0" by (simp add: f)
  have h3: "focalLength (config s) + (- 400) \<noteq> 0" by (simp add: f)
  note inst = projection_and_render[OF h1, of 1000 100 "- 50" test_star]
  have p1: "project s 100 (- 50) 1000
       = \<lparr>proj_x = Val (5500 / 13), proj_y = Val (3750 / 13), proj_scale = Val (3 / 13)\<rparr>"
    using inst h2 by (simp add: f)
  have p2: "project s 100 (- 50) (- 400)
       = \<lparr>proj_x = Val 100, proj_y = Val 450, proj_scale = Val (- 3)\<rparr>"
    using projection_and_render[OF h1, of "- 400" 100 "- 50" test_star] h3 by (simp add: f)
  have c: "canvas (render s)
       = [\<lparr>disc_x = Val (5500 / 13), disc_y = Val (3750 / 13), radius = Val (3 / 13),
           fill_hue = 200, fill_saturation = 70, fill_lightness = 90, alpha = Val (21 / 130)\<rparr>]"
    using inst by (simp add: f test_star_def p1 p2 js_gt_def)
  have "0 < focalLength (config s) \<and> focalLength (config s) + 1000 \<noteq> 0
      \<and> project s 100 (- 50) 1000
       = \<lparr>proj_x = Val (5500 / 13), proj_y = Val (3750 / 13), proj_scale = Val (3 / 13)\<rparr>
      \<and> proj_scale (project s 100 (- 50) (- 400)) = Val (- 3)
      \<and> canvas (render s)
       = [\<lparr>disc_x = Val (5500 / 13), disc_y = Val (3750 / 13), radius = Val (3 / 13),
           fill_hue = 200, fill_saturation = 70, fill_lightness = 90, alpha = Val (21 / 130)\<rparr>]"
    using h1 h2 p1 p2 c by simp
  then show ?thesis unfolding s_def .
qed

section \<open>The cached count\<close>

lemma of_char_digit_char: "d < 10 \<Longrightarrow> (of_char (digit_char d) :: nat) = 48 + d"
  by (simp add: digit_char_def)

lemma is_digit_digit_char: "d < 10 \<Longrightarrow> is_digit (digit_char d)"
  by (simp add: is_digit_def of_char_digit_char)

lemma is_digit_plain:
  assumes "is_digit c"
  shows "\<not> is_white c" and "c \<noteq> CHR ''-''" and "c \<noteq> CHR ''+''"
  using assms by (auto simp add: is_digit_def is_white_def)

lemma nat_toString_digits: "nat_toString n \<noteq> [] \<and> (\<forall>c \<in> set (nat_toString n). is_digit c)"
proof (induction n rule: nat_toString.induct)
  case (1 n)
  show ?case
  proof (cases "n < 10")
    case True
    then show ?thesis by (simp add: nat_toString.simps[of n] is_digit_digit_char)
  next
    case False
    have "n mod 10 < 10" by simp
    with False 1 show ?thesis
      by (simp add: nat_toString.simps[of n] is_digit_digit_char)
  qed
qed

lemma digits_value_snoc:
  "digits_value (ds @ [c]) = digits_value ds * 10 + (int (of_char c) - 48)"
  by (simp add: digits_value_def)

lemma digits_value_nat_toString: "digits_value (nat_toString n) = int n"
proof (induction n rule: nat_toString.induct)
  case (1 n)
  show ?case
  proof (cases "n < 10")
    case True
    then show ?thesis
      by (simp add: nat_toString.simps[of n] digits_value_def of_char_digit_char)
  next
    case False
    have m: "n mod 10 < 10" by simp
    have "digits_value (nat_toString n)
        = digits_value (nat_toString (n div 10)) * 10 + (int (of_char (digit_char (n mod 10))) - 48)"
      using False by (simp add: nat_toString.simps[of n] digits_value_snoc)
    also have "\<dots> = int (n div 10) * 10 + int (n mod 10)"
      using 1 False by (simp add: of_char_digit_char[OF m])
    also have "\<dots> = int n"
      by (simp add: zdiv_int zmod_int)
    finally show ?thesis .
  qed
qed

lemma parseInt_digits:
  assumes "ds \<noteq> []" and "\<forall>c \<in> set ds. is_digit c"
  shows "parseInt ds = Some (digits_value ds)"
    and "parseInt (CHR ''-'' # ds) = Some (- digits_value ds)"
proof -
  have h: "\<not> is_white (hd ds)" "hd ds \<noteq> CHR ''-''" "hd ds \<noteq> CHR ''+''"
    using assms is_digit_plain[of "hd ds"] by (cases ds; simp)+
  have dw: "dropWhile is_white ds = ds"
    using assms(1) h(1) by (cases ds) simp_all
  have tw: "takeWhile is_digit ds = ds"
    using assms(2) by (simp add: takeWhile_eq_all_conv)
  show "parseInt ds = Some (digits_value ds)"
    using assms(1) h by (simp add: parseInt_def Let_def dw tw)
  have w: "\<not> is_white CHR ''-''" by (simp add: is_white_def)
  show "parseInt (CHR ''-'' # ds) = Some (- digits_value ds)"
    using assms(1) w by (simp add: parseInt_def Let_def tw)
qed

text \<open>A count written by \<open>toString\<close> is read back by \<open>parseInt\<close>.\<close>

lemma parseInt_toString: "parseInt (toString c) = Some c"
proof (cases "c < 0")
  case True
  then show ?thesis
    using parseInt_digits(2)[of "nat_toString (nat (- c))"] nat_toString_digits[of "nat (- c)"]
    by (simp add: toString_def digits_value_nat_toString)
next
  case False
  then show ?thesis
    using parseInt_digits(1)[of "nat_toString (nat c)"] nat_toString_digits[of "nat c"]
    by (simp add: toString_def digits_value_nat_toString)
qed

lemma initialise_config:
  "initialise b options = Inr s \<Longrightarrow>
     config s = mergeDeep defaults options
     \<and> starCount s = (case cfg_starCount (config s) of
                        Auto \<Rightarrow> detectDeviceCapability (config s) b
                      | Count n \<Rightarrow> n)"
  by (auto simp add: initialise_def Let_def resize_def
      split: option.splits prod.splits star_setting.splits)

lemma cachedCount_eq:
  "cachedCount cfg b =
     (case localStorage b of
        Unavailable \<Rightarrow> None
      | Items m \<Rightarrow>
          (case m storage_key of
             None \<Rightarrow> None
           | Some cached \<Rightarrow>
               (case parseInt cached of
                  None \<Rightarrow> None
                | Some count \<Rightarrow>
                    if 100 \<le> count \<and> count \<le> maxStarCount cfg then Some count else None)))"
proof -
  have "parseInt [] = None" by (simp add: parseInt_def)
  then show ?thesis
    by (auto simp add: cachedCount_def split: storage.splits option.splits)
qed

text \<open>
  Claim C9, as amended. The cached item is used as the count only when
  \<open>localStorage\<close> can be read, the item is there, \<open>parseInt\<close> reads a number from it,
  and the number is in \<open>[100, maxStarCount]\<close>: a number outside is dropped, not
  clamped. In every other case the count is the value of \<open>deviceDetection\<close> for a
  mobile or low-end device or for a desktop; the function has no other outcome. At
  construction with \<open>starCount: 'auto'\<close> this is the count of the instance. A count
  persisted by the controller (\<open>toString\<close>, \<open>setItem\<close>) is read back as itself when
  the storage is available.
\<close>

theorem cached_count_or_fallback:
  "cachedCount cfg b =
     (case localStorage b of
        Unavailable \<Rightarrow> None
      | Items m \<Rightarrow>
          (case m storage_key of
             None \<Rightarrow> None
           | Some cached \<Rightarrow>
               (case parseInt cached of
                  None \<Rightarrow> None
                | Some count \<Rightarrow>
                    if 100 \<le> count \<and> count \<le> maxStarCount cfg then Some count else None)))
   \<and> detectDeviceCapability cfg b =
       (case cachedCount cfg b of
          Some count \<Rightarrow> count
        | None \<Rightarrow> if userAgentMobile b \<or> lowEnd b
                  then mobile (deviceDetection cfg) else desktop (deviceDetection cfg))
   \<and> (cachedCount cfg b = Some c \<longrightarrow> 100 \<le> c \<and> c \<le> maxStarCount cfg)
   \<and> (initialise b options = Inr s \<and> cfg_starCount (config s) = Auto \<longrightarrow>
        starCount s = detectDeviceCapability (config s) b)
   \<and> parseInt (toString n) = Some n
   \<and> (localStorage b \<noteq> Unavailable \<longrightarrow>
        cachedCount cfg (setItem storage_key (toString n) b)
          = (if 100 \<le> n \<and> n \<le> maxStarCount cfg then Some n else None))"
proof (intro conjI impI)
  show "cachedCount cfg b =
     (case localStorage b of
        Unavailable \<Rightarrow> None
      | Items m \<Rightarrow>
          (case m storage_key of
             None \<Rightarrow> None
           | Some cached \<Rightarrow>
               (case parseInt cached of
                  None \<Rightarrow> None
                | Some count \<Rightarrow>
                    if 100 \<le> count \<and> count \<le> maxStarCount cfg then Some count else None)))"
    by (rule cachedCount_eq)
  show "detectDeviceCapability cfg b =
       (case cachedCount cfg b of
          Some count \<Rightarrow> count
        | None \<Rightarrow> if userAgentMobile b \<or> lowEnd b
                  then mobile (deviceDetection cfg) else desktop (deviceDetection cfg))"
    by (simp add: detectDeviceCapability_def)
  show "parseInt (toString n) = Some n" by (rule parseInt_toString)
next
  assume "cachedCount cfg b = Some c"
  then show "100 \<le> c" "c \<le> maxStarCount cfg"
    by (auto simp add: cachedCount_eq split: storage.splits option.splits if_splits)
next
  assume "initialise b options = Inr s \<and> cfg_starCount (config s) = Auto"
  then show "starCount s = detectDeviceCapability (config s) b"
    using initialise_config[of b options s] by simp
next
  assume "localStorage b \<noteq> Unavailable"
  then show "cachedCount cfg (setItem storage_key (toString n) b)
          = (if 100 \<le> n \<and> n \<le> maxStarCount cfg then Some n else None)"
    by (cases "localStorage b") (simp_all add: cachedCount_eq setItem_def parseInt_toString)
qed

text \<open>
  The theorem at a browser whose storage holds \<open>"250"\<close>: the count is 250, also for
  the instance constructed with the default options, and stays so when the controller
  stores 250 again.
\<close>

theorem cached_count_or_fallback_witness:
  "cachedCount defaults (test_browser\<lparr>localStorage := Items [storage_key \<mapsto> ''250'']\<rparr>) = Some 250
   \<and> detectDeviceCapability defaults (test_browser\<lparr>localStorage := Items [storage_key \<mapsto> ''250'']\<rparr>) = 250
   \<and> (\<exists>s. initialise (test_browser\<lparr>localStorage := Items [storage_key \<mapsto> ''250'']\<rparr>) no_options = Inr s
          \<and> cfg_starCount (config s) = Auto \<and> starCount s = 250)
   \<and> localStorage (test_browser\<lparr>localStorage := Items [storage_key \<mapsto> ''250'']\<rparr>) \<noteq> Unavailable
   \<and> cachedCount defaults
         (setItem storage_key (toString 250)
            (test_browser\<lparr>localStorage := Items [storage_key \<mapsto> ''250'']\<rparr>)) = Some 250"
proof -
  define b where "b = test_browser\<lparr>localStorage := Items [storage_key \<mapsto> ''250'']\<rparr>"
  have p: "parseInt ''250'' = Some 250" by code_simp
  have ls: "localStorage b = Items [storage_key \<mapsto> ''250'']" "localStorage b \<noteq> Unavailable"
    by (simp_all add: b_def)
  have m: "maxStarCount defaults = 10000" by (simp add: defaults_def)
  have md: "mergeDeep defaults no_options = defaults"
    by (simp add: mergeDeep_def no_options_def override_def defaults_def)
  have "validateConfig (all_options (mergeDeep defaults no_options)) = None"
    unfolding md
    by (simp add: validateConfig_def all_options_def defaults_def
        validate_opt_def validate_def validateStarSize_def validateStarColors_def
        validateDeviceDetection_def)
  from initialise_valid[OF this] obtain s where s: "initialise b no_options = Inr s" by blast
  note inst = cached_count_or_fallback[of defaults b 250 no_options s 250]
  have c: "cachedCount defaults b = Some 250"
    using inst[THEN conjunct1] by (simp add: ls p m)
  have d: "detectDeviceCapability defaults b = 250"
    using inst[THEN conjunct2, THEN conjunct1] by (simp add: c)
  have cs: "config s = defaults" using initialise_config[OF s] by (simp add: md)
  then have auto: "cfg_starCount (config s) = Auto" by (simp add: defaults_def)
  have "starCount s = detectDeviceCapability (config s) b"
    using inst[THEN conjunct2, THEN conjunct2, THEN conjunct2, THEN conjunct1] s auto by blast
  then have sc: "starCount s = 250" by (simp add: cs d)
  have "cachedCount defaults (setItem storage_key (toString 250) b)
          = (if 100 \<le> (250::int) \<and> 250 \<le> maxStarCount defaults then Some 250 else None)"
    using inst[THEN conjunct2, THEN conjunct2, THEN conjunct2, THEN conjunct2, THEN conjunct2] ls(2)
    by blast
  then have again: "cachedCount defaults (setItem storage_key (toString 250) b) = Some 250"
    by (simp add: m)
  have "cachedCount defaults b = Some 250 \<and> detectDeviceCapability defaults b = 250
      \<and> (\<exists>s. initialise b no_options = Inr s \<and> cfg_starCount (config s) = Auto \<and> starCount s = 250)
      \<and> localStorage b \<noteq> Unavailable
      \<and> cachedCount defaults (setItem storage_key (toString 250) b) = Some 250"
    using c d s auto sc ls(2) again by blast
  then show ?thesis unfolding b_def .
qed

text \<open>
  The claim as stated fails: a cached count is not clamped. With \<open>"50"\<close> in the storage
  the count is the desktop value 500, not 100; with \<open>"20000"\<close> and the default
  \<open>maxStarCount\<close> it is 500 as well, not 10000.
\<close>

theorem cached_count_counterexample:
  "detectDeviceCapability defaults (test_browser\<lparr>localStorage := Items [storage_key \<mapsto> ''50'']\<rparr>) = 500
   \<and> max 100 (min (maxStarCount defaults) 50) = 100
   \<and> detectDeviceCapability defaults (test_browser\<lparr>localStorage := Items [storage_key \<mapsto> ''20000'']\<rparr>) = 500
   \<and> max 100 (min (maxStarCount defaults) 20000) = 10000"
proof -
  have p: "parseInt ''50'' = Some 50" "parseInt ''20000'' = Some 20000" by code_simp+
  have m: "maxStarCount defaults = 10000" "desktop (deviceDetection defaults) = 500"
    by (simp_all add: defaults_def)
  have b: "\<not> userAgentMobile (test_browser\<lparr>localStorage := st\<rparr>)"
      "\<not> lowEnd (test_browser\<lparr>localStorage := st\<rparr>)" for st
    by (simp_all add: test_browser_def lowEnd_def)
  show ?thesis
    by (simp add: detectDeviceCapability_def cachedCount_eq p m b)
qed

end
